theory Spec2Isabelle
  imports Main
begin

section \<open>Python values, errors and the library functions the parser calls\<close>

text \<open>
  \<^verbatim>\<open>slackbot_command_parse\<close> (src/sb-command-parser.py) is a function from two strings to a
  dictionary. Strings are \<^typ>\<open>string\<close>, one \<^typ>\<open>char\<close> per code point below 256.
  The values stored in the dictionary are Python strings or Python integers; the
  dictionary is a map from column names to such values, and \<^verbatim>\<open>{}\<close> is the empty map.
  An exception is a value \<open>Inl e\<close>; a normal result is \<open>Inr v\<close>.
\<close>

datatype py_error = ValueError | IndexError

datatype pyval = PyStr string | PyInt int

type_synonym pydict = "string \<rightharpoonup> pyval"

definition exc_bind :: "py_error + 'a \<Rightarrow> ('a \<Rightarrow> py_error + 'b) \<Rightarrow> py_error + 'b" where
  "exc_bind m f = (case m of Inl e \<Rightarrow> Inl e | Inr x \<Rightarrow> f x)"

text \<open>
  Python's \<^verbatim>\<open>a and b\<close> on booleans: \<open>b\<close> is evaluated, and can raise, only when \<open>a\<close> is true.
\<close>

definition exc_and :: "py_error + bool \<Rightarrow> py_error + bool \<Rightarrow> py_error + bool" where
  "exc_and a b = (case a of Inl e \<Rightarrow> Inl e | Inr x \<Rightarrow> (if x then b else Inr False))"

text \<open>\<^verbatim>\<open>xs[i]\<close> for an index that is not negative: IndexError out of range.\<close>

definition index :: "'a list \<Rightarrow> nat \<Rightarrow> py_error + 'a" where
  "index xs i = (if i < length xs then Inr (xs ! i) else Inl IndexError)"

text \<open>\<^verbatim>\<open>x in range(a, b)\<close> for an integer \<open>x\<close>.\<close>

definition in_range :: "int \<Rightarrow> int \<Rightarrow> int \<Rightarrow> bool" where
  "in_range x a b = (a \<le> x \<and> x < b)"

subsection \<open>\<^verbatim>\<open>str.split(sep)\<close> with a one-character separator\<close>

text \<open>
  The result is never empty: \<^verbatim>\<open>''.split(':') == ['']\<close>, \<^verbatim>\<open>'a:'.split(':') == ['a', '']\<close>.
\<close>

fun str_split :: "char \<Rightarrow> string \<Rightarrow> string list" where
  "str_split sep [] = [[]]"
| "str_split sep (c # cs) =
     (if c = sep then [] # str_split sep cs
      else (case str_split sep cs of f # fs \<Rightarrow> (c # f) # fs | [] \<Rightarrow> [[c]]))"

subsection \<open>\<^verbatim>\<open>int(s)\<close> on a string, base 10\<close>

text \<open>
  The built-in skips leading white space, reads an optional sign, then decimal digits
  in which single underscores may stand between two digits, then skips trailing white
  space, and raises ValueError unless that is the whole string and there is a digit.
  White space is \<^verbatim>\<open>\t \n \v \f \r\<close>, the space, and below code point 256 also NEL (0x85)
  and the no-break space (0xA0). It also raises ValueError when the literal has more
  digits than the interpreter's limit, 4300 by default
  (\<^verbatim>\<open>sys.int_info.default_max_str_digits\<close>): leading zeros count as digits, underscores,
  the sign and white space do not.
\<close>

definition py_isspace :: "char \<Rightarrow> bool" where
  "py_isspace c = (c \<in> set [CHR 0x09, CHR 0x0A, CHR 0x0B, CHR 0x0C, CHR 0x0D, CHR 0x20,
                             CHR 0x85, CHR 0xA0])"

definition digit_val :: "char \<Rightarrow> nat option" where
  "digit_val c =
     (let n = (of_char c :: nat) in if 48 \<le> n \<and> n \<le> 57 then Some (n - 48) else None)"

definition max_str_digits :: nat where
  "max_str_digits = 4300"

text \<open>
  The scan over digits and underscores: \<open>prev_us\<close> says that the character before was
  an underscore; two in a row, or one at the end of the digits, is an error. The scan
  returns the value read, the number of digits read and the rest of the string.
\<close>

fun scan_digits :: "bool \<Rightarrow> nat \<Rightarrow> nat \<Rightarrow> string \<Rightarrow> py_error + (nat \<times> nat \<times> string)" where
  "scan_digits prev_us acc digits [] =
     (if prev_us then Inl ValueError else Inr (acc, digits, []))"
| "scan_digits prev_us acc digits (c # cs) =
     (if c = CHR ''_'' then (if prev_us then Inl ValueError else scan_digits True acc digits cs)
      else (case digit_val c of
              Some d \<Rightarrow> scan_digits False (acc * 10 + d) (Suc digits) cs
            | None \<Rightarrow> (if prev_us then Inl ValueError else Inr (acc, digits, c # cs))))"

definition py_int :: "string \<Rightarrow> py_error + int" where
  "py_int s =
     (let s1 = dropWhile py_isspace s;
          sign = (case s1 of c # _ \<Rightarrow> (if c = CHR ''-'' then - 1 else 1) | [] \<Rightarrow> (1::int));
          s2 = (case s1 of c # cs \<Rightarrow> (if c = CHR ''+'' \<or> c = CHR ''-'' then cs else s1) | [] \<Rightarrow> s1)
      in case s2 of
           [] \<Rightarrow> Inl ValueError
         | c # _ \<Rightarrow>
             (if digit_val c = None then Inl ValueError
              else exc_bind (scan_digits False 0 0 s2) (\<lambda>(n, digits, rest).
                     if digits > max_str_digits then Inl ValueError
                     else if dropWhile py_isspace rest = [] then Inr (sign * int n)
                     else Inl ValueError)))"

subsection \<open>\<^verbatim>\<open>shlex.split(s)\<close>\<close>

text \<open>
  \<^verbatim>\<open>shlex.split(s)\<close> builds a \<^verbatim>\<open>shlex\<close> lexer on \<open>s\<close> in POSIX mode with
  \<^verbatim>\<open>whitespace_split = True\<close> and no comment characters, and returns the list of the
  tokens that \<^verbatim>\<open>read_token\<close> yields up to the end of the input. The lexer's \<^verbatim>\<open>state\<close> is
  \<^verbatim>\<open>None\<close> past the end of the input, and otherwise \<^verbatim>\<open>' '\<close> (\<open>InBlank\<close>), \<^verbatim>\<open>'a'\<close>
  (\<open>InWord\<close>), the quote character that opened a quotation (\<open>InQuote\<close>) or the escape
  character (\<open>InEscape\<close>). With \<^verbatim>\<open>whitespace_split\<close>, the branch for word characters and
  the last branch assign the same values, so they are one branch here; the branches for
  comment and punctuation characters cannot be taken, both sets being empty.
\<close>

datatype lexstate = InBlank | InWord | InQuote char | InEscape char

definition whitespace :: "char list" where
  "whitespace = [CHR 0x20, CHR 0x09, CHR 0x0D, CHR 0x0A]"

definition quotes :: "char list" where
  "quotes = [CHR 0x27, CHR 0x22]"

definition escape :: "char list" where
  "escape = [CHR 0x5C]"

definition escapedquotes :: "char list" where
  "escapedquotes = [CHR 0x22]"

text \<open>
  The \<^verbatim>\<open>while True\<close> loop of \<^verbatim>\<open>read_token\<close>: each round reads one character of the input
  stream (none at its end). The result is the token, the flag \<^verbatim>\<open>quoted\<close>, the state and
  the rest of the stream at the \<^verbatim>\<open>break\<close>.
\<close>

fun read_loop ::
  "lexstate option \<Rightarrow> lexstate \<Rightarrow> bool \<Rightarrow> string \<Rightarrow> string
     \<Rightarrow> py_error + (string \<times> bool \<times> lexstate option \<times> string)" where
  "read_loop None escapedstate quoted token instream =
     Inr ([], quoted, None, drop 1 instream)"
| "read_loop (Some InBlank) escapedstate quoted token [] =
     Inr (token, quoted, None, [])"
| "read_loop (Some InBlank) escapedstate quoted token (nextchar # instream) =
     (if nextchar \<in> set whitespace then
        (if token \<noteq> [] \<or> quoted then Inr (token, quoted, Some InBlank, instream)
         else read_loop (Some InBlank) escapedstate quoted token instream)
      else if nextchar \<in> set escape then
        read_loop (Some (InEscape nextchar)) InWord quoted token instream
      else if nextchar \<in> set quotes then
        read_loop (Some (InQuote nextchar)) escapedstate quoted token instream
      else read_loop (Some InWord) escapedstate quoted [nextchar] instream)"
| "read_loop (Some (InQuote q)) escapedstate quoted token [] = Inl ValueError"
| "read_loop (Some (InQuote q)) escapedstate quoted token (nextchar # instream) =
     (if nextchar = q then read_loop (Some InWord) escapedstate True token instream
      else if nextchar \<in> set escape \<and> q \<in> set escapedquotes then
        read_loop (Some (InEscape nextchar)) (InQuote q) True token instream
      else read_loop (Some (InQuote q)) escapedstate True (token @ [nextchar]) instream)"
| "read_loop (Some (InEscape esc)) escapedstate quoted token [] = Inl ValueError"
| "read_loop (Some (InEscape esc)) escapedstate quoted token (nextchar # instream) =
     (let token' =
        (case escapedstate of
           InQuote q \<Rightarrow> (if nextchar \<noteq> esc \<and> nextchar \<noteq> q then token @ [esc] else token)
         | _ \<Rightarrow> token)
      in read_loop (Some escapedstate) escapedstate quoted (token' @ [nextchar]) instream)"
| "read_loop (Some InWord) escapedstate quoted token [] =
     Inr (token, quoted, None, [])"
| "read_loop (Some InWord) escapedstate quoted token (nextchar # instream) =
     (if nextchar \<in> set whitespace then
        (if token \<noteq> [] \<or> quoted then Inr (token, quoted, Some InBlank, instream)
         else read_loop (Some InBlank) escapedstate quoted token instream)
      else if nextchar \<in> set quotes then
        read_loop (Some (InQuote nextchar)) escapedstate quoted token instream
      else if nextchar \<in> set escape then
        read_loop (Some (InEscape nextchar)) InWord quoted token instream
      else read_loop (Some InWord) escapedstate quoted (token @ [nextchar]) instream)"

text \<open>
  \<^verbatim>\<open>read_token\<close>: \<^verbatim>\<open>quoted = False\<close>, \<^verbatim>\<open>escapedstate = ' '\<close>, the token is empty at entry;
  an empty token that was not quoted is returned as \<^verbatim>\<open>None\<close>, the end-of-file marker.
\<close>

definition read_token ::
  "lexstate option \<Rightarrow> string \<Rightarrow> py_error + (string option \<times> lexstate option \<times> string)" where
  "read_token state instream =
     exc_bind (read_loop state InBlank False [] instream) (\<lambda>(result, quoted, state', instream').
       Inr (if \<not> quoted \<and> result = [] then None else Some result, state', instream'))"

text \<open>\<^verbatim>\<open>list(lex)\<close>: tokens are read until \<^verbatim>\<open>read_token\<close> returns the end-of-file marker.\<close>

function lex_tokens :: "lexstate option \<Rightarrow> string \<Rightarrow> py_error + string list" where
  "lex_tokens state instream =
     (case read_token state instream of
        Inl e \<Rightarrow> Inl e
      | Inr (None, state', instream') \<Rightarrow> Inr []
      | Inr (Some tok, state', instream') \<Rightarrow>
          exc_bind (lex_tokens state' instream') (\<lambda>toks. Inr (tok # toks)))"
  by pat_completeness auto
termination
proof -
  have loop: "length ins' \<le> length ins \<and> (st' \<noteq> None \<longrightarrow> length ins' < length ins)"
    if "read_loop st es q tok ins = Inr (res, q', st', ins')"
    for st es q tok ins res q' st' ins'
    using that
    by (induction st es q tok ins rule: read_loop.induct)
       (auto split: if_splits lexstate.splits simp: Let_def)
  have tok: "2 * length ins' + (case st' of None \<Rightarrow> 0 | Some _ \<Rightarrow> 1)
               < 2 * length ins + (case st of None \<Rightarrow> 0 | Some _ \<Rightarrow> (1::nat))"
    if r: "read_token st ins = Inr (Some t, st', ins')" for st ins t st' ins'
  proof (cases st)
    case None
    with r show ?thesis
      by (simp add: read_token_def exc_bind_def)
  next
    case (Some s)
    from r obtain res q' where
      "read_loop st InBlank False [] ins = Inr (res, q', st', ins')"
      by (auto simp: read_token_def exc_bind_def split: sum.splits if_splits)
    from loop [OF this] Some show ?thesis
      by (cases st') auto
  qed
  show ?thesis
    by (relation "measure (\<lambda>(st, ins). 2 * length ins + (case st of None \<Rightarrow> 0 | Some _ \<Rightarrow> 1))")
       (auto dest: tok)
qed

definition shlex_split :: "string \<Rightarrow> py_error + string list" where
  "shlex_split s = lex_tokens (Some InBlank) s"

section \<open>The command parser\<close>

text \<open>
  The local variables of \<^verbatim>\<open>slackbot_command_parse\<close>: the valid priority levels and the
  five column names, the keys of the returned dictionary.
\<close>

definition priority_level_list :: "int list" where
  "priority_level_list = [0, 1, 2]"

abbreviation col_command :: string where "col_command \<equiv> ''Command''"
abbreviation col_taskname :: string where "col_taskname \<equiv> ''Task Name''"
abbreviation col_taskdesc :: string where "col_taskdesc \<equiv> ''Task Description''"
abbreviation col_priolevel :: string where "col_priolevel \<equiv> ''Priority Level''"
abbreviation col_percent :: string where "col_percent \<equiv> ''Percent Completion''"

text \<open>
  The four blocks of the \<^verbatim>\<open>try\<close> body, one per command (lines 45-61, 63-86, 88-100 and
  102-114). Each takes the token list and the current \<^verbatim>\<open>ret_dict\<close>; \<open>Inr\<close> is the
  \<^verbatim>\<open>ret_dict\<close> at the end of the block, \<open>Inl\<close> an exception raised in it. The only
  assignment to \<^verbatim>\<open>ret_dict\<close> in a block is the last statement on its path, so an exception
  leaves \<^verbatim>\<open>ret_dict\<close> as it was at the block's entry.
\<close>

definition create_block :: "string list \<Rightarrow> pydict \<Rightarrow> py_error + pydict" where
  "create_block parsed_input ret_dict =
     (let COMMAND = ''create'' in
      exc_bind (index parsed_input 1) (\<lambda>tok1.
      if tok1 = COMMAND then
        exc_bind (index parsed_input 2) (\<lambda>tok2.
        let param_list = str_split CHR '':'' tok2 in
        if length param_list = 4 then
          exc_bind
            (exc_and (Inr (length (param_list ! 0) > 0))
            (exc_and (Inr (length (param_list ! 1) > 0))
            (exc_and (exc_bind (py_int (param_list ! 2)) (\<lambda>pl. Inr (pl \<in> set priority_level_list)))
                     (exc_bind (py_int (param_list ! 3)) (\<lambda>pc. Inr (in_range pc 0 101))))))
            (\<lambda>ok.
               if ok then
                 exc_bind (py_int (param_list ! 2)) (\<lambda>pl.
                 exc_bind (py_int (param_list ! 3)) (\<lambda>pc.
                 Inr [col_command \<mapsto> PyStr COMMAND,
                      col_taskname \<mapsto> PyStr (param_list ! 0),
                      col_taskdesc \<mapsto> PyStr (param_list ! 1),
                      col_priolevel \<mapsto> PyInt pl,
                      col_percent \<mapsto> PyInt pc]))
               else Inr ret_dict)
        else Inr ret_dict)
      else Inr ret_dict))"

definition update_block :: "string list \<Rightarrow> pydict \<Rightarrow> py_error + pydict" where
  "update_block parsed_input ret_dict =
     (let COMMAND = ''update'' in
      exc_bind (index parsed_input 1) (\<lambda>tok1.
      if tok1 = COMMAND then
        exc_bind (index parsed_input 2) (\<lambda>tok2.
        let param_list = str_split CHR '':'' tok2 in
        if length param_list = 4 then
          exc_bind
            (exc_and (Inr (length (param_list ! 0) > 0))
                     (exc_bind (py_int (param_list ! 3)) (\<lambda>pc. Inr (in_range pc 0 101))))
            (\<lambda>ok.
               if ok then
                 (if length (param_list ! 2) > 0 then
                    exc_bind (py_int (param_list ! 2)) (\<lambda>pl.
                    if pl \<in> set priority_level_list then
                      exc_bind (py_int (param_list ! 2)) (\<lambda>pl.
                      exc_bind (py_int (param_list ! 3)) (\<lambda>pc.
                      Inr [col_command \<mapsto> PyStr COMMAND,
                           col_taskname \<mapsto> PyStr (param_list ! 0),
                           col_taskdesc \<mapsto> PyStr (param_list ! 1),
                           col_priolevel \<mapsto> PyInt pl,
                           col_percent \<mapsto> PyInt pc]))
                    else Inr ret_dict)
                  else
                    exc_bind (py_int (param_list ! 3)) (\<lambda>pc.
                    Inr [col_command \<mapsto> PyStr COMMAND,
                         col_taskname \<mapsto> PyStr (param_list ! 0),
                         col_taskdesc \<mapsto> PyStr (param_list ! 1),
                         col_priolevel \<mapsto> PyStr [],
                         col_percent \<mapsto> PyInt pc]))
               else Inr ret_dict)
        else Inr ret_dict)
      else Inr ret_dict))"

definition suspend_block :: "string list \<Rightarrow> pydict \<Rightarrow> py_error + pydict" where
  "suspend_block parsed_input ret_dict =
     (let COMMAND = ''suspend'' in
      exc_bind (index parsed_input 1) (\<lambda>tok1.
      if tok1 = COMMAND then
        exc_bind (index parsed_input 2) (\<lambda>tok2.
        let param_list = str_split CHR '':'' tok2 in
        if length param_list = 1 then
          (if length (param_list ! 0) > 0 then
             Inr [col_command \<mapsto> PyStr COMMAND,
                  col_taskname \<mapsto> PyStr (param_list ! 0),
                  col_taskdesc \<mapsto> PyStr [],
                  col_priolevel \<mapsto> PyStr [],
                  col_percent \<mapsto> PyStr []]
           else Inr ret_dict)
        else Inr ret_dict)
      else Inr ret_dict))"

definition abandon_block :: "string list \<Rightarrow> pydict \<Rightarrow> py_error + pydict" where
  "abandon_block parsed_input ret_dict =
     (let COMMAND = ''abandon'' in
      exc_bind (index parsed_input 1) (\<lambda>tok1.
      if tok1 = COMMAND then
        exc_bind (index parsed_input 2) (\<lambda>tok2.
        let param_list = str_split CHR '':'' tok2 in
        if length param_list = 1 then
          (if length (param_list ! 0) > 0 then
             Inr [col_command \<mapsto> PyStr COMMAND,
                  col_taskname \<mapsto> PyStr (param_list ! 0),
                  col_taskdesc \<mapsto> PyStr [],
                  col_priolevel \<mapsto> PyStr [],
                  col_percent \<mapsto> PyStr []]
           else Inr ret_dict)
        else Inr ret_dict)
      else Inr ret_dict))"

text \<open>
  The body of the \<^verbatim>\<open>try\<close> statement (lines 34-114), started with a given \<^verbatim>\<open>ret_dict\<close>: the
  result is the \<^verbatim>\<open>ret_dict\<close> when the body is left, and the exception that left it, if
  one did.
\<close>

definition try_body :: "string \<Rightarrow> string \<Rightarrow> pydict \<Rightarrow> pydict \<times> py_error option" where
  "try_body input_line_of_text begins_with ret_dict =
     (case shlex_split input_line_of_text of
        Inl e \<Rightarrow> (ret_dict, Some e)
      | Inr parsed_input \<Rightarrow>
     (case index parsed_input 0 of
        Inl e \<Rightarrow> (ret_dict, Some e)
      | Inr tok0 \<Rightarrow>
          if tok0 = begins_with then
            (case create_block parsed_input ret_dict of
               Inl e \<Rightarrow> (ret_dict, Some e)
             | Inr ret_dict1 \<Rightarrow>
            (case update_block parsed_input ret_dict1 of
               Inl e \<Rightarrow> (ret_dict1, Some e)
             | Inr ret_dict2 \<Rightarrow>
            (case suspend_block parsed_input ret_dict2 of
               Inl e \<Rightarrow> (ret_dict2, Some e)
             | Inr ret_dict3 \<Rightarrow>
            (case abandon_block parsed_input ret_dict3 of
               Inl e \<Rightarrow> (ret_dict3, Some e)
             | Inr ret_dict4 \<Rightarrow> (ret_dict4, None)))))
          else (ret_dict, None)))"

text \<open>
  The function: \<^verbatim>\<open>ret_dict = {}\<close>, then the \<^verbatim>\<open>try\<close> statement. Both the last line of the
  body (line 116) and the handler \<^verbatim>\<open>except:\<close> (line 120), which catches every exception,
  return \<^verbatim>\<open>ret_dict\<close>. \<open>Inl\<close> would be an exception that reaches the caller.
\<close>

definition slackbot_command_parse :: "string \<Rightarrow> string \<Rightarrow> py_error + pydict" where
  "slackbot_command_parse input_line_of_text begins_with =
     (let ret_dict = Map.empty in
      case try_body input_line_of_text begins_with ret_dict of
        (ret_dict', None) \<Rightarrow> Inr ret_dict'
      | (ret_dict', Some e) \<Rightarrow> Inr ret_dict')"

section \<open>The rules of the specification\<close>

text \<open>
  Section 4 of the specification gives, for each command, the number of fields of the
  parameter token and the domain of each field, and section 3 the fields of a record.
  The predicates below state these rules in the specification's words, on the list of
  fields and on a dictionary; the theorems compare them with the function.
\<close>

text \<open>A field that parses as an integer in \<open>{0, 1, 2}\<close>, or in \<open>[0, 100]\<close>.\<close>

definition is_priority :: "string \<Rightarrow> bool" where
  "is_priority s = (case py_int s of Inr n \<Rightarrow> n = 0 \<or> n = 1 \<or> n = 2 | Inl e \<Rightarrow> False)"

definition is_percent :: "string \<Rightarrow> bool" where
  "is_percent s = (case py_int s of Inr n \<Rightarrow> 0 \<le> n \<and> n \<le> 100 | Inl e \<Rightarrow> False)"

text \<open>The rows of the table: create, update, and suspend or abandon.\<close>

definition create_fields_valid :: "string list \<Rightarrow> bool" where
  "create_fields_valid fs =
     (length fs = 4 \<and> fs ! 0 \<noteq> [] \<and> fs ! 1 \<noteq> [] \<and> is_priority (fs ! 2) \<and> is_percent (fs ! 3))"

definition update_fields_valid :: "string list \<Rightarrow> bool" where
  "update_fields_valid fs =
     (length fs = 4 \<and> fs ! 0 \<noteq> [] \<and> (fs ! 2 = [] \<or> is_priority (fs ! 2)) \<and> is_percent (fs ! 3))"

definition name_fields_valid :: "string list \<Rightarrow> bool" where
  "name_fields_valid fs = (length fs = 1 \<and> fs ! 0 \<noteq> [])"

text \<open>
  A fully valid record: the five fields are present, the task name is a non-empty
  string, and the other fields are in the domain that the command's row gives them. The
  marker of an absent field is the one the function writes, the empty string.
\<close>

definition priority_value :: "pyval option \<Rightarrow> bool" where
  "priority_value v = (v = Some (PyInt 0) \<or> v = Some (PyInt 1) \<or> v = Some (PyInt 2))"

definition percent_value :: "pyval option \<Rightarrow> bool" where
  "percent_value v = (case v of Some (PyInt n) \<Rightarrow> 0 \<le> n \<and> n \<le> 100 | _ \<Rightarrow> False)"

definition nonempty_string :: "pyval option \<Rightarrow> bool" where
  "nonempty_string v = (case v of Some (PyStr s) \<Rightarrow> s \<noteq> [] | _ \<Rightarrow> False)"

definition any_string :: "pyval option \<Rightarrow> bool" where
  "any_string v = (case v of Some (PyStr s) \<Rightarrow> True | _ \<Rightarrow> False)"

definition absent :: "pyval option \<Rightarrow> bool" where
  "absent v = (v = Some (PyStr []))"

definition valid_record :: "pydict \<Rightarrow> bool" where
  "valid_record d =
     (nonempty_string (d col_taskname) \<and>
      (case d col_command of
         Some (PyStr c) \<Rightarrow>
           (if c = ''create'' then
              nonempty_string (d col_taskdesc) \<and> priority_value (d col_priolevel) \<and>
              percent_value (d col_percent)
            else if c = ''update'' then
              any_string (d col_taskdesc) \<and>
              (absent (d col_priolevel) \<or> priority_value (d col_priolevel)) \<and>
              percent_value (d col_percent)
            else if c = ''suspend'' \<or> c = ''abandon'' then
              absent (d col_taskdesc) \<and> absent (d col_priolevel) \<and> absent (d col_percent)
            else False)
       | _ \<Rightarrow> False))"

section \<open>Properties of the library functions\<close>

lemma str_split_not_Nil: "str_split sep s \<noteq> []"
  by (induction s) (auto split: list.splits)

lemma str_split_no_sep: "f \<in> set (str_split sep s) \<Longrightarrow> sep \<notin> set f"
proof (induction s arbitrary: f)
  case Nil
  then show ?case by simp
next
  case (Cons c cs)
  obtain g gs where split: "str_split sep cs = g # gs"
    using str_split_not_Nil [of sep cs] by (cases "str_split sep cs") auto
  show ?case
  proof (cases "c = sep")
    case True
    with Cons show ?thesis by auto
  next
    case False
    with Cons.prems split have "f = c # g \<or> f \<in> set gs" by auto
    with Cons.IH [of g] Cons.IH [of f] split False show ?thesis by auto
  qed
qed

lemma length_str_split_append:
  "length (str_split sep (a @ sep # b)) = length (str_split sep a) + length (str_split sep b)"
proof (induction a)
  case Nil
  then show ?case by simp
next
  case (Cons c cs)
  obtain g gs where g: "str_split sep (cs @ sep # b) = g # gs"
    using str_split_not_Nil [of sep "cs @ sep # b"] by (cases "str_split sep (cs @ sep # b)") auto
  obtain h hs where h: "str_split sep cs = h # hs"
    using str_split_not_Nil [of sep cs] by (cases "str_split sep cs") auto
  from Cons g h show ?case by simp
qed

lemma str_split_sep_length: "sep \<in> set s \<Longrightarrow> 2 \<le> length (str_split sep s)"
proof -
  assume "sep \<in> set s"
  then obtain a b where "s = a @ sep # b" by (auto dest: split_list)
  moreover have "1 \<le> length (str_split sep a)" "1 \<le> length (str_split sep b)"
    using str_split_not_Nil [of sep a] str_split_not_Nil [of sep b]
    by (simp_all add: Suc_le_eq)
  ultimately show ?thesis by (simp add: length_str_split_append)
qed

lemma str_split_no_sep_id: "sep \<notin> set s \<Longrightarrow> str_split sep s = [s]"
  by (induction s) auto

lemma str_split_first_field: "sep \<notin> set a \<Longrightarrow> str_split sep (a @ sep # b) = a # str_split sep b"
  by (induction a) auto

text \<open>A literal of zeros only: it is read as 0 up to 4300 digits, and refused beyond.\<close>

lemma scan_digits_zeros:
  "scan_digits False acc k (replicate n CHR ''0'') = Inr (acc * 10 ^ n, k + n, [])"
  by (induction n arbitrary: acc k) (simp_all add: digit_val_def)

lemma py_int_zeros:
  assumes "0 < n"
  shows "py_int (replicate n CHR ''0'') = (if max_str_digits < n then Inl ValueError else Inr 0)"
proof -
  from assms obtain m where n: "n = Suc m" by (cases n) auto
  have "dropWhile py_isspace (replicate n CHR ''0'') = replicate n CHR ''0''"
    unfolding n by (simp add: py_isspace_def)
  moreover have "replicate n CHR ''0'' = CHR ''0'' # replicate m CHR ''0''"
    unfolding n by simp
  ultimately show ?thesis
    using scan_digits_zeros [of 0 0 n]
    by (simp add: py_int_def digit_val_def exc_bind_def)
qed

text \<open>The lexer reads a run of zeros into the current word.\<close>

lemma read_loop_zeros:
  "read_loop (Some InWord) es q tok (replicate n CHR ''0'' @ rest) =
     read_loop (Some InWord) es q (tok @ replicate n CHR ''0'') rest"
proof (induction n arbitrary: tok)
  case 0
  show ?case by simp
next
  case (Suc n)
  have "read_loop (Some InWord) es q tok (replicate (Suc n) CHR ''0'' @ rest) =
        read_loop (Some InWord) es q (tok @ ''0'') (replicate n CHR ''0'' @ rest)"
    by (simp add: whitespace_def quotes_def escape_def)
  with Suc [of "tok @ ''0''"] show ?case by (simp add: replicate_app_Cons_same)
qed

lemma index_take: "i < n \<Longrightarrow> index (take n xs) i = index xs i"
  by (simp add: index_def)

lemma length_four: "length xs = 4 \<Longrightarrow> \<exists>a b c d. xs = [a, b, c, d]"
  by (auto simp: numeral_eq_Suc length_Suc_conv)

section \<open>The result of the parser, case by case\<close>

lemmas parse_defs = slackbot_command_parse_def try_body_def create_block_def update_block_def
  suspend_block_def abandon_block_def index_def exc_bind_def exc_and_def Let_def

lemma parse_tokenize_error:
  "shlex_split l = Inl e \<Longrightarrow> slackbot_command_parse l p = Inr Map.empty"
  by (simp add: slackbot_command_parse_def try_body_def)

lemma parse_few_tokens:
  assumes "shlex_split l = Inr toks" "length toks < 3"
  shows "slackbot_command_parse l p = Inr Map.empty"
proof -
  from assms(2) consider "toks = []" | a where "toks = [a]" | a b where "toks = [a, b]"
    by (cases toks rule: list.exhaust; simp; rename_tac x xs; case_tac xs; simp; rename_tac y ys; case_tac ys; simp)
  then show ?thesis
    using assms(1) by cases (simp_all add: parse_defs)
qed

lemma parse_prefix_mismatch:
  "shlex_split l = Inr (t0 # ts) \<Longrightarrow> t0 \<noteq> p \<Longrightarrow> slackbot_command_parse l p = Inr Map.empty"
  by (simp add: slackbot_command_parse_def try_body_def index_def)

lemma parse_unknown_command:
  "shlex_split l = Inr (t0 # c # ts) \<Longrightarrow> c \<notin> {''create'', ''update'', ''suspend'', ''abandon''} \<Longrightarrow>
     slackbot_command_parse l p = Inr Map.empty"
  by (simp add: parse_defs)

lemma parse_create_accept:
  assumes "shlex_split l = Inr (p # ''create'' # param # rest)"
    and "str_split CHR '':'' param = [f0, f1, f2, f3]" "f0 \<noteq> []" "f1 \<noteq> []"
    and "py_int f2 = Inr pl" "pl \<in> {0, 1, 2}" "py_int f3 = Inr pc" "0 \<le> pc" "pc \<le> 100"
  shows "slackbot_command_parse l p =
           Inr [col_command \<mapsto> PyStr ''create'', col_taskname \<mapsto> PyStr f0,
                col_taskdesc \<mapsto> PyStr f1, col_priolevel \<mapsto> PyInt pl, col_percent \<mapsto> PyInt pc]"
  using assms by (simp add: parse_defs in_range_def priority_level_list_def)

lemma parse_create_reject:
  assumes "shlex_split l = Inr (p # ''create'' # param # rest)"
    and "\<not> create_fields_valid (str_split CHR '':'' param)"
  shows "slackbot_command_parse l p = Inr Map.empty"
  using assms
  by (auto simp: parse_defs in_range_def priority_level_list_def create_fields_valid_def
        is_priority_def is_percent_def split: sum.splits)

lemma parse_update_accept_absent:
  assumes "shlex_split l = Inr (p # ''update'' # param # rest)"
    and "str_split CHR '':'' param = [f0, f1, [], f3]" "f0 \<noteq> []"
    and "py_int f3 = Inr pc" "0 \<le> pc" "pc \<le> 100"
  shows "slackbot_command_parse l p =
           Inr [col_command \<mapsto> PyStr ''update'', col_taskname \<mapsto> PyStr f0,
                col_taskdesc \<mapsto> PyStr f1, col_priolevel \<mapsto> PyStr [], col_percent \<mapsto> PyInt pc]"
  using assms by (simp add: parse_defs in_range_def priority_level_list_def)

lemma parse_update_accept_priority:
  assumes "shlex_split l = Inr (p # ''update'' # param # rest)"
    and "str_split CHR '':'' param = [f0, f1, f2, f3]" "f0 \<noteq> []" "f2 \<noteq> []"
    and "py_int f2 = Inr pl" "pl \<in> {0, 1, 2}" "py_int f3 = Inr pc" "0 \<le> pc" "pc \<le> 100"
  shows "slackbot_command_parse l p =
           Inr [col_command \<mapsto> PyStr ''update'', col_taskname \<mapsto> PyStr f0,
                col_taskdesc \<mapsto> PyStr f1, col_priolevel \<mapsto> PyInt pl, col_percent \<mapsto> PyInt pc]"
  using assms by (simp add: parse_defs in_range_def priority_level_list_def)

lemma parse_update_reject:
  assumes "shlex_split l = Inr (p # ''update'' # param # rest)"
    and "\<not> update_fields_valid (str_split CHR '':'' param)"
  shows "slackbot_command_parse l p = Inr Map.empty"
  using assms
  by (auto simp: parse_defs in_range_def priority_level_list_def update_fields_valid_def
        is_priority_def is_percent_def split: sum.splits)

lemma parse_name_accept:
  assumes "shlex_split l = Inr (p # c # param # rest)" "c = ''suspend'' \<or> c = ''abandon''"
    and "str_split CHR '':'' param = [f0]" "f0 \<noteq> []"
  shows "slackbot_command_parse l p =
           Inr [col_command \<mapsto> PyStr c, col_taskname \<mapsto> PyStr f0,
                col_taskdesc \<mapsto> PyStr [], col_priolevel \<mapsto> PyStr [], col_percent \<mapsto> PyStr []]"
  using assms by (auto simp: parse_defs)

lemma parse_name_reject:
  assumes "shlex_split l = Inr (p # c # param # rest)" "c = ''suspend'' \<or> c = ''abandon''"
    and "\<not> name_fields_valid (str_split CHR '':'' param)"
  shows "slackbot_command_parse l p = Inr Map.empty"
  using assms by (auto simp: parse_defs name_fields_valid_def)

lemma create_fields_validD:
  assumes "create_fields_valid fs"
  obtains f0 f1 f2 f3 pl pc where "fs = [f0, f1, f2, f3]" "f0 \<noteq> []" "f1 \<noteq> []"
    "py_int f2 = Inr pl" "pl \<in> {0, 1, 2}" "py_int f3 = Inr pc" "0 \<le> pc" "pc \<le> 100"
proof -
  from assms have "length fs = 4" by (simp add: create_fields_valid_def)
  from length_four [OF this] obtain f0 f1 f2 f3 where fs: "fs = [f0, f1, f2, f3]" by blast
  with assms obtain pl pc where "f0 \<noteq> []" "f1 \<noteq> []"
    "py_int f2 = Inr pl" "pl \<in> {0, 1, 2}" "py_int f3 = Inr pc" "0 \<le> pc" "pc \<le> 100"
    by (auto simp: create_fields_valid_def is_priority_def is_percent_def split: sum.splits)
  with fs that show thesis by blast
qed

lemma update_fields_validD:
  assumes "update_fields_valid fs"
  obtains f0 f1 f2 f3 pc where "fs = [f0, f1, f2, f3]" "f0 \<noteq> []"
    "f2 = [] \<or> (\<exists>pl. py_int f2 = Inr pl \<and> pl \<in> {0, 1, 2})" "py_int f3 = Inr pc" "0 \<le> pc" "pc \<le> 100"
proof -
  from assms have "length fs = 4" by (simp add: update_fields_valid_def)
  from length_four [OF this] obtain f0 f1 f2 f3 where fs: "fs = [f0, f1, f2, f3]" by blast
  with assms obtain pc where "f0 \<noteq> []"
    "f2 = [] \<or> (\<exists>pl. py_int f2 = Inr pl \<and> pl \<in> {0, 1, 2})" "py_int f3 = Inr pc" "0 \<le> pc" "pc \<le> 100"
    by (auto simp: update_fields_valid_def is_priority_def is_percent_def split: sum.splits)
  with fs that show thesis by blast
qed

text \<open>
  Every result of the function is the empty dictionary or one of the dictionaries that
  the blocks build from the fields of the split parameter token.
\<close>

lemma parse_result_cases:
  obtains (Empty) "slackbot_command_parse l p = Inr Map.empty"
  | (Create) param f0 f1 pl pc where
      "f0 \<in> set (str_split CHR '':'' param)" "f1 \<in> set (str_split CHR '':'' param)"
      "f0 \<noteq> []" "f1 \<noteq> []" "pl = 0 \<or> pl = 1 \<or> pl = 2" "0 \<le> pc" "pc \<le> 100"
      "slackbot_command_parse l p =
         Inr [col_command \<mapsto> PyStr ''create'', col_taskname \<mapsto> PyStr f0,
              col_taskdesc \<mapsto> PyStr f1, col_priolevel \<mapsto> PyInt pl, col_percent \<mapsto> PyInt pc]"
  | (Update_absent) param f0 f1 pc where
      "f0 \<in> set (str_split CHR '':'' param)" "f1 \<in> set (str_split CHR '':'' param)"
      "f0 \<noteq> []" "0 \<le> pc" "pc \<le> 100"
      "slackbot_command_parse l p =
         Inr [col_command \<mapsto> PyStr ''update'', col_taskname \<mapsto> PyStr f0,
              col_taskdesc \<mapsto> PyStr f1, col_priolevel \<mapsto> PyStr [], col_percent \<mapsto> PyInt pc]"
  | (Update_priority) param f0 f1 pl pc where
      "f0 \<in> set (str_split CHR '':'' param)" "f1 \<in> set (str_split CHR '':'' param)"
      "f0 \<noteq> []" "pl = 0 \<or> pl = 1 \<or> pl = 2" "0 \<le> pc" "pc \<le> 100"
      "slackbot_command_parse l p =
         Inr [col_command \<mapsto> PyStr ''update'', col_taskname \<mapsto> PyStr f0,
              col_taskdesc \<mapsto> PyStr f1, col_priolevel \<mapsto> PyInt pl, col_percent \<mapsto> PyInt pc]"
  | (Suspend) param f0 where
      "f0 \<in> set (str_split CHR '':'' param)" "f0 \<noteq> []"
      "slackbot_command_parse l p =
         Inr [col_command \<mapsto> PyStr ''suspend'', col_taskname \<mapsto> PyStr f0,
              col_taskdesc \<mapsto> PyStr [], col_priolevel \<mapsto> PyStr [], col_percent \<mapsto> PyStr []]"
  | (Abandon) param f0 where
      "f0 \<in> set (str_split CHR '':'' param)" "f0 \<noteq> []"
      "slackbot_command_parse l p =
         Inr [col_command \<mapsto> PyStr ''abandon'', col_taskname \<mapsto> PyStr f0,
              col_taskdesc \<mapsto> PyStr [], col_priolevel \<mapsto> PyStr [], col_percent \<mapsto> PyStr []]"
proof (cases "shlex_split l")
  case (Inl e)
  then show thesis by (intro Empty parse_tokenize_error)
next
  case (Inr toks)
  show thesis
  proof (cases "length toks < 3")
    case True
    with Inr show thesis by (intro Empty parse_few_tokens)
  next
    case False
    then obtain t0 c param rest where toks: "toks = t0 # c # param # rest"
      by (cases toks; simp; rename_tac x xs; case_tac xs; simp; rename_tac y ys; case_tac ys; simp)
    let ?fs = "str_split CHR '':'' param"
    show thesis
    proof (cases "t0 = p")
      case False
      with Inr toks show thesis by (intro Empty parse_prefix_mismatch) simp_all
    next
      case t0: True
      show thesis
      proof (cases "c = ''create''")
        case True
        from Inr toks t0 True have tk: "shlex_split l = Inr (p # ''create'' # param # rest)"
          by simp
        show thesis
        proof (cases "create_fields_valid ?fs")
          case False
          from parse_create_reject [OF tk False] show thesis by (rule Empty)
        next
          case True
          then obtain f0 f1 f2 f3 pl pc where f: "?fs = [f0, f1, f2, f3]" "f0 \<noteq> []" "f1 \<noteq> []"
            "py_int f2 = Inr pl" "pl \<in> {0, 1, 2}" "py_int f3 = Inr pc" "0 \<le> pc" "pc \<le> 100"
            by (rule create_fields_validD)
          have mem: "f0 \<in> set ?fs" "f1 \<in> set ?fs" and pl: "pl = 0 \<or> pl = 1 \<or> pl = 2"
            using f(1,5) by simp_all
          from mem f(2,3) pl f(7,8) parse_create_accept [OF tk f] show thesis by (rule Create)
        qed
      next
        case not_create: False
        show thesis
        proof (cases "c = ''update''")
          case True
          from Inr toks t0 True have tk: "shlex_split l = Inr (p # ''update'' # param # rest)"
            by simp
          show thesis
          proof (cases "update_fields_valid ?fs")
            case False
            from parse_update_reject [OF tk False] show thesis by (rule Empty)
          next
            case True
            then obtain f0 f1 f2 f3 pc where f: "?fs = [f0, f1, f2, f3]" "f0 \<noteq> []"
              and f2: "f2 = [] \<or> (\<exists>pl. py_int f2 = Inr pl \<and> pl \<in> {0, 1, 2})"
              and f3: "py_int f3 = Inr pc" "0 \<le> pc" "pc \<le> 100"
              by (rule update_fields_validD)
            have mem: "f0 \<in> set ?fs" "f1 \<in> set ?fs"
              using f(1) by simp_all
            show thesis
            proof (cases "f2 = []")
              case True
              with f have "?fs = [f0, f1, [], f3]" by simp
              from mem f(2) f3(2,3) parse_update_accept_absent [OF tk this f(2) f3]
              show thesis by (rule Update_absent)
            next
              case False
              with f2 obtain pl where pl: "py_int f2 = Inr pl" "pl \<in> {0, 1, 2}" by blast
              then have "pl = 0 \<or> pl = 1 \<or> pl = 2" by simp
              from mem f(2) this f3(2,3) parse_update_accept_priority [OF tk f False pl f3]
              show thesis by (rule Update_priority)
            qed
          qed
        next
          case not_update: False
          show thesis
          proof (cases "c = ''suspend'' \<or> c = ''abandon''")
            case False
            with not_create not_update
            have "c \<notin> {''create'', ''update'', ''suspend'', ''abandon''}" by simp
            with Inr toks show thesis by (intro Empty parse_unknown_command) simp_all
          next
            case True
            from Inr toks t0 have tk: "shlex_split l = Inr (p # c # param # rest)" by simp
            show thesis
            proof (cases "name_fields_valid ?fs")
              case False
              from parse_name_reject [OF tk True False] show thesis by (rule Empty)
            next
              case valid: True
              then obtain f0 where f: "?fs = [f0]" "f0 \<noteq> []"
                by (auto simp: name_fields_valid_def length_Suc_conv)
              have mem: "f0 \<in> set ?fs" using f(1) by simp
              note r = parse_name_accept [OF tk True f]
              from True show thesis
              proof
                assume "c = ''suspend''"
                with r mem f(2) show thesis by (intro Suspend) simp_all
              next
                assume "c = ''abandon''"
                with r mem f(2) show thesis by (intro Abandon) simp_all
              qed
            qed
          qed
        qed
      qed
    qed
  qed
qed

text \<open>Facts for evaluating the definitions on a given line.\<close>

lemmas shlex_defs = shlex_split_def read_token_def exc_bind_def whitespace_def quotes_def
  escape_def escapedquotes_def

lemmas py_int_defs = py_int_def py_isspace_def digit_val_def max_str_digits_def exc_bind_def

lemmas eval_defs = parse_defs shlex_defs py_int_defs in_range_def priority_level_list_def

lemmas valid_record_defs = valid_record_def nonempty_string_def any_string_def absent_def
  priority_value_def percent_value_def

section \<open>The claims\<close>

text \<open>
  C1. For every input line the function returns the empty dictionary or a record that
  is fully valid for its command: a non-empty task name; for create a non-empty
  description, a priority in \<open>{0, 1, 2}\<close> and a percentage in \<open>[0, 100]\<close>; for update a
  percentage in \<open>[0, 100]\<close> and a priority that is absent or in \<open>{0, 1, 2}\<close>; for
  suspend and abandon the three other fields absent. No partial record is returned.
\<close>

theorem parse_empty_or_valid:
  "\<exists>d. slackbot_command_parse l p = Inr d \<and> (d = Map.empty \<or> valid_record d)"
proof (cases l p rule: parse_result_cases)
  case Empty
  then show ?thesis by simp
next
  case (Create param f0 f1 pl pc)
  from Create(3-7) have
    "valid_record [col_command \<mapsto> PyStr ''create'', col_taskname \<mapsto> PyStr f0,
       col_taskdesc \<mapsto> PyStr f1, col_priolevel \<mapsto> PyInt pl, col_percent \<mapsto> PyInt pc]"
    by (simp add: valid_record_defs)
  with Create(8) show ?thesis by simp
next
  case (Update_absent param f0 f1 pc)
  from Update_absent(3-5) have
    "valid_record [col_command \<mapsto> PyStr ''update'', col_taskname \<mapsto> PyStr f0,
       col_taskdesc \<mapsto> PyStr f1, col_priolevel \<mapsto> PyStr [], col_percent \<mapsto> PyInt pc]"
    by (simp add: valid_record_defs)
  with Update_absent(6) show ?thesis by simp
next
  case (Update_priority param f0 f1 pl pc)
  from Update_priority(3-6) have
    "valid_record [col_command \<mapsto> PyStr ''update'', col_taskname \<mapsto> PyStr f0,
       col_taskdesc \<mapsto> PyStr f1, col_priolevel \<mapsto> PyInt pl, col_percent \<mapsto> PyInt pc]"
    by (simp add: valid_record_defs)
  with Update_priority(7) show ?thesis by simp
next
  case (Suspend param f0)
  from Suspend(2) have
    "valid_record [col_command \<mapsto> PyStr ''suspend'', col_taskname \<mapsto> PyStr f0,
       col_taskdesc \<mapsto> PyStr [], col_priolevel \<mapsto> PyStr [], col_percent \<mapsto> PyStr []]"
    by (simp add: valid_record_defs)
  with Suspend(3) show ?thesis by simp
next
  case (Abandon param f0)
  from Abandon(2) have
    "valid_record [col_command \<mapsto> PyStr ''abandon'', col_taskname \<mapsto> PyStr f0,
       col_taskdesc \<mapsto> PyStr [], col_priolevel \<mapsto> PyStr [], col_percent \<mapsto> PyStr []]"
    by (simp add: valid_record_defs)
  with Abandon(3) show ?thesis by simp
qed

theorem parse_empty_or_valid_witness:
  "slackbot_command_parse ''/slackbot create myTaskA:'plain vanilla task':1:10'' ''/slackbot'' =
     Inr [col_command \<mapsto> PyStr ''create'', col_taskname \<mapsto> PyStr ''myTaskA'',
          col_taskdesc \<mapsto> PyStr ''plain vanilla task'', col_priolevel \<mapsto> PyInt 1,
          col_percent \<mapsto> PyInt 10] \<and>
   valid_record [col_command \<mapsto> PyStr ''create'', col_taskname \<mapsto> PyStr ''myTaskA'',
          col_taskdesc \<mapsto> PyStr ''plain vanilla task'', col_priolevel \<mapsto> PyInt 1,
          col_percent \<mapsto> PyInt 10] \<and>
   slackbot_command_parse ''/slackbot create myTaskA:'plain vanilla task':3:10'' ''/slackbot'' =
     Inr Map.empty"
proof -
  let ?r = "[col_command \<mapsto> PyStr ''create'', col_taskname \<mapsto> PyStr ''myTaskA'',
          col_taskdesc \<mapsto> PyStr ''plain vanilla task'', col_priolevel \<mapsto> PyInt 1,
          col_percent \<mapsto> PyInt 10]"
  have r: "slackbot_command_parse ''/slackbot create myTaskA:'plain vanilla task':1:10'' ''/slackbot''
             = Inr ?r"
    by (simp add: eval_defs)
  have ne: "?r \<noteq> Map.empty" by simp
  from parse_empty_or_valid [of "''/slackbot create myTaskA:'plain vanilla task':1:10''" "''/slackbot''"]
  obtain d where "slackbot_command_parse ''/slackbot create myTaskA:'plain vanilla task':1:10'' ''/slackbot'' = Inr d"
    and "d = Map.empty \<or> valid_record d" by blast
  with r ne have v: "valid_record ?r" by simp
  have "slackbot_command_parse ''/slackbot create myTaskA:'plain vanilla task':3:10'' ''/slackbot''
          = Inr Map.empty"
    by (simp add: eval_defs)
  with r v show ?thesis by (intro conjI)
qed

text \<open>
  C2. For every input string the function returns a value to its caller, a record or
  the empty dictionary: no exception leaves it. (The tokenizer terminates on every
  input, and every exception of the body is caught by the handler.)
\<close>

theorem parse_never_raises: "\<exists>d. slackbot_command_parse l p = Inr d"
  by (simp add: slackbot_command_parse_def split: prod.splits option.splits)

theorem parse_never_raises_witness:
  "shlex_split ''/slackbot create \"unterminated'' = Inl ValueError \<and>
   (\<exists>d. slackbot_command_parse ''/slackbot create \"unterminated'' ''/slackbot'' = Inr d)"
  using parse_never_raises [of "''/slackbot create \"unterminated''" "''/slackbot''"]
  by (simp add: shlex_defs)

text \<open>
  C3. On a line whose first three tokens are the prefix, \<^verbatim>\<open>create\<close> and a parameter
  token: when the token splits on \<^verbatim>\<open>:\<close> into exactly four fields, the first two not
  empty, the third an integer in \<open>{0, 1, 2}\<close> and the fourth an integer in \<open>[0, 100]\<close>, the
  result is the record of command \<^verbatim>\<open>create\<close> with these two strings and these two
  integers; when the number of fields is not four, a required field is empty, or a
  numeric field is not an integer of its range, the result is the empty dictionary. A
  field is an integer when \<^verbatim>\<open>int\<close> returns one for it: a literal of more than 4300 digits
  is not, as \<^verbatim>\<open>int\<close> raises ValueError for it.
\<close>

theorem create_rule:
  assumes "shlex_split l = Inr (p # ''create'' # param # rest)"
  shows "(str_split CHR '':'' param = [f0, f1, f2, f3] \<and> f0 \<noteq> [] \<and> f1 \<noteq> [] \<and>
          py_int f2 = Inr pl \<and> pl \<in> {0, 1, 2} \<and> py_int f3 = Inr pc \<and> 0 \<le> pc \<and> pc \<le> 100 \<longrightarrow>
          slackbot_command_parse l p =
            Inr [col_command \<mapsto> PyStr ''create'', col_taskname \<mapsto> PyStr f0,
                 col_taskdesc \<mapsto> PyStr f1, col_priolevel \<mapsto> PyInt pl, col_percent \<mapsto> PyInt pc]) \<and>
         (length (str_split CHR '':'' param) \<noteq> 4 \<or> str_split CHR '':'' param ! 0 = [] \<or>
          str_split CHR '':'' param ! 1 = [] \<or> \<not> is_priority (str_split CHR '':'' param ! 2) \<or>
          \<not> is_percent (str_split CHR '':'' param ! 3) \<longrightarrow>
          slackbot_command_parse l p = Inr Map.empty)"
proof (intro conjI impI)
  assume "str_split CHR '':'' param = [f0, f1, f2, f3] \<and> f0 \<noteq> [] \<and> f1 \<noteq> [] \<and>
          py_int f2 = Inr pl \<and> pl \<in> {0, 1, 2} \<and> py_int f3 = Inr pc \<and> 0 \<le> pc \<and> pc \<le> 100"
  then show "slackbot_command_parse l p =
            Inr [col_command \<mapsto> PyStr ''create'', col_taskname \<mapsto> PyStr f0,
                 col_taskdesc \<mapsto> PyStr f1, col_priolevel \<mapsto> PyInt pl, col_percent \<mapsto> PyInt pc]"
    by (elim conjE) (rule parse_create_accept [OF assms])
next
  assume "length (str_split CHR '':'' param) \<noteq> 4 \<or> str_split CHR '':'' param ! 0 = [] \<or>
          str_split CHR '':'' param ! 1 = [] \<or> \<not> is_priority (str_split CHR '':'' param ! 2) \<or>
          \<not> is_percent (str_split CHR '':'' param ! 3)"
  then have "\<not> create_fields_valid (str_split CHR '':'' param)"
    by (auto simp: create_fields_valid_def)
  with assms show "slackbot_command_parse l p = Inr Map.empty"
    by (rule parse_create_reject)
qed

theorem create_rule_witness:
  "shlex_split ''/slackbot create myTaskA:'plain vanilla task':1:10'' =
     Inr [''/slackbot'', ''create'', ''myTaskA:plain vanilla task:1:10''] \<and>
   str_split CHR '':'' ''myTaskA:plain vanilla task:1:10'' =
     [''myTaskA'', ''plain vanilla task'', ''1'', ''10''] \<and>
   py_int ''1'' = Inr 1 \<and> py_int ''10'' = Inr 10 \<and>
   slackbot_command_parse ''/slackbot create myTaskA:'plain vanilla task':1:10'' ''/slackbot'' =
     Inr [col_command \<mapsto> PyStr ''create'', col_taskname \<mapsto> PyStr ''myTaskA'',
          col_taskdesc \<mapsto> PyStr ''plain vanilla task'', col_priolevel \<mapsto> PyInt 1,
          col_percent \<mapsto> PyInt 10] \<and>
   shlex_split ''/slackbot create myTaskA:'plain vanilla task':hello:10'' =
     Inr [''/slackbot'', ''create'', ''myTaskA:plain vanilla task:hello:10''] \<and>
   \<not> is_priority (str_split CHR '':'' ''myTaskA:plain vanilla task:hello:10'' ! 2) \<and>
   slackbot_command_parse ''/slackbot create myTaskA:'plain vanilla task':hello:10'' ''/slackbot'' =
     Inr Map.empty \<and>
   shlex_split (''/slackbot create a:b:1:'' @ replicate 4301 CHR ''0'') =
     Inr [''/slackbot'', ''create'', ''a:b:1:'' @ replicate 4301 CHR ''0''] \<and>
   str_split CHR '':'' (''a:b:1:'' @ replicate 4301 CHR ''0'') =
     [''a'', ''b'', ''1'', replicate 4301 CHR ''0''] \<and>
   py_int (replicate 4301 CHR ''0'') = Inl ValueError \<and>
   slackbot_command_parse (''/slackbot create a:b:1:'' @ replicate 4301 CHR ''0'') ''/slackbot'' =
     Inr Map.empty"
proof -
  have t1: "shlex_split ''/slackbot create myTaskA:'plain vanilla task':1:10'' =
     Inr (''/slackbot'' # ''create'' # ''myTaskA:plain vanilla task:1:10'' # [])"
    by (simp add: shlex_defs)
  have s1: "str_split CHR '':'' ''myTaskA:plain vanilla task:1:10'' =
     [''myTaskA'', ''plain vanilla task'', ''1'', ''10'']"
    by simp
  have i1: "py_int ''1'' = Inr 1" "py_int ''10'' = Inr 10"
    by (simp_all add: py_int_defs)
  have t2: "shlex_split ''/slackbot create myTaskA:'plain vanilla task':hello:10'' =
     Inr (''/slackbot'' # ''create'' # ''myTaskA:plain vanilla task:hello:10'' # [])"
    by (simp add: shlex_defs)
  have n2: "\<not> is_priority (str_split CHR '':'' ''myTaskA:plain vanilla task:hello:10'' ! 2)"
    by (simp add: is_priority_def py_int_defs)
  have t3: "shlex_split (''/slackbot create a:b:1:'' @ replicate 4301 CHR ''0'') =
     Inr (''/slackbot'' # ''create'' # (''a:b:1:'' @ replicate 4301 CHR ''0'') # [])"
    using read_loop_zeros [of _ _ _ 4301 "[]"] by (simp add: shlex_defs)
  have s3: "str_split CHR '':'' (''a:b:1:'' @ replicate 4301 CHR ''0'') =
     [''a'', ''b'', ''1'', replicate 4301 CHR ''0'']"
    by (simp add: str_split_no_sep_id)
  have i3: "py_int (replicate 4301 CHR ''0'') = Inl ValueError"
    by (simp add: py_int_zeros max_str_digits_def)
  from s3 i3 have
    n3: "\<not> is_percent (str_split CHR '':'' (''a:b:1:'' @ replicate 4301 CHR ''0'') ! 3)"
    by (simp add: is_percent_def)
  from create_rule [OF t1, of "''myTaskA''" "''plain vanilla task''" "''1''" "''10''" 1 10] s1 i1
  have r1: "slackbot_command_parse ''/slackbot create myTaskA:'plain vanilla task':1:10'' ''/slackbot'' =
     Inr [col_command \<mapsto> PyStr ''create'', col_taskname \<mapsto> PyStr ''myTaskA'',
          col_taskdesc \<mapsto> PyStr ''plain vanilla task'', col_priolevel \<mapsto> PyInt 1,
          col_percent \<mapsto> PyInt 10]"
    by simp
  from create_rule [OF t2] n2
  have r2: "slackbot_command_parse ''/slackbot create myTaskA:'plain vanilla task':hello:10'' ''/slackbot'' =
     Inr Map.empty"
    by blast
  from create_rule [OF t3] n3
  have r3: "slackbot_command_parse (''/slackbot create a:b:1:'' @ replicate 4301 CHR ''0'') ''/slackbot'' =
     Inr Map.empty"
    by blast
  from t1 s1 i1 r1 t2 n2 r2 t3 s3 i3 r3 show ?thesis by (intro conjI)
qed

text \<open>
  C4. On an \<^verbatim>\<open>update\<close> line whose parameter token splits into exactly four fields, the
  first not empty and the fourth an integer in \<open>[0, 100]\<close>: when the third field is the
  empty string, the result is a record whose priority level is the absent marker and
  whose description is the second field, empty or not; when the third field is not
  empty and is an integer in \<open>{0, 1, 2}\<close>, the record carries that integer; when it is
  not empty and is not such an integer, the result is the empty dictionary.
\<close>

theorem update_rule:
  assumes "shlex_split l = Inr (p # ''update'' # param # rest)"
    and "str_split CHR '':'' param = [f0, f1, f2, f3]" "f0 \<noteq> []"
    and "py_int f3 = Inr pc" "0 \<le> pc" "pc \<le> 100"
  shows "(f2 = [] \<longrightarrow>
          slackbot_command_parse l p =
            Inr [col_command \<mapsto> PyStr ''update'', col_taskname \<mapsto> PyStr f0,
                 col_taskdesc \<mapsto> PyStr f1, col_priolevel \<mapsto> PyStr [], col_percent \<mapsto> PyInt pc]) \<and>
         (f2 \<noteq> [] \<and> py_int f2 = Inr pl \<and> pl \<in> {0, 1, 2} \<longrightarrow>
          slackbot_command_parse l p =
            Inr [col_command \<mapsto> PyStr ''update'', col_taskname \<mapsto> PyStr f0,
                 col_taskdesc \<mapsto> PyStr f1, col_priolevel \<mapsto> PyInt pl, col_percent \<mapsto> PyInt pc]) \<and>
         (f2 \<noteq> [] \<and> \<not> is_priority f2 \<longrightarrow> slackbot_command_parse l p = Inr Map.empty)"
proof (intro conjI impI)
  assume "f2 = []"
  with assms(2) have "str_split CHR '':'' param = [f0, f1, [], f3]" by simp
  then show "slackbot_command_parse l p =
            Inr [col_command \<mapsto> PyStr ''update'', col_taskname \<mapsto> PyStr f0,
                 col_taskdesc \<mapsto> PyStr f1, col_priolevel \<mapsto> PyStr [], col_percent \<mapsto> PyInt pc]"
    using assms(3-6) by (rule parse_update_accept_absent [OF assms(1)])
next
  assume "f2 \<noteq> [] \<and> py_int f2 = Inr pl \<and> pl \<in> {0, 1, 2}"
  then have "f2 \<noteq> []" "py_int f2 = Inr pl" "pl \<in> {0, 1, 2}" by simp_all
  then show "slackbot_command_parse l p =
            Inr [col_command \<mapsto> PyStr ''update'', col_taskname \<mapsto> PyStr f0,
                 col_taskdesc \<mapsto> PyStr f1, col_priolevel \<mapsto> PyInt pl, col_percent \<mapsto> PyInt pc]"
    using assms(4-6) by (rule parse_update_accept_priority [OF assms(1-3)])
next
  assume "f2 \<noteq> [] \<and> \<not> is_priority f2"
  with assms(2) have "\<not> update_fields_valid (str_split CHR '':'' param)"
    by (simp add: update_fields_valid_def)
  with assms(1) show "slackbot_command_parse l p = Inr Map.empty"
    by (rule parse_update_reject)
qed

theorem update_rule_witness:
  "slackbot_command_parse ''/slackbot update myTaskA:::40'' ''/slackbot'' =
     Inr [col_command \<mapsto> PyStr ''update'', col_taskname \<mapsto> PyStr ''myTaskA'',
          col_taskdesc \<mapsto> PyStr [], col_priolevel \<mapsto> PyStr [], col_percent \<mapsto> PyInt 40] \<and>
   slackbot_command_parse ''/slackbot update myTaskA:\"new description\"::40'' ''/slackbot'' =
     Inr [col_command \<mapsto> PyStr ''update'', col_taskname \<mapsto> PyStr ''myTaskA'',
          col_taskdesc \<mapsto> PyStr ''new description'', col_priolevel \<mapsto> PyStr [],
          col_percent \<mapsto> PyInt 40] \<and>
   slackbot_command_parse ''/slackbot update myTaskA::0:40'' ''/slackbot'' =
     Inr [col_command \<mapsto> PyStr ''update'', col_taskname \<mapsto> PyStr ''myTaskA'',
          col_taskdesc \<mapsto> PyStr [], col_priolevel \<mapsto> PyInt 0, col_percent \<mapsto> PyInt 40] \<and>
   \<not> is_priority ''4'' \<and>
   slackbot_command_parse ''/slackbot update myTaskA::4:40'' ''/slackbot'' = Inr Map.empty \<and>
   shlex_split (''/slackbot update a:b:'' @ replicate 4301 CHR ''0'' @ '':40'') =
     Inr [''/slackbot'', ''update'', ''a:b:'' @ replicate 4301 CHR ''0'' @ '':40''] \<and>
   str_split CHR '':'' (''a:b:'' @ replicate 4301 CHR ''0'' @ '':40'') =
     [''a'', ''b'', replicate 4301 CHR ''0'', ''40''] \<and>
   py_int (replicate 4301 CHR ''0'') = Inl ValueError \<and>
   slackbot_command_parse (''/slackbot update a:b:'' @ replicate 4301 CHR ''0'' @ '':40'')
     ''/slackbot'' = Inr Map.empty"
proof -
  have pc: "py_int ''40'' = Inr 40" "(0::int) \<le> 40" "(40::int) \<le> 100"
    by (simp_all add: py_int_defs)
  have ne: "''myTaskA'' \<noteq> []" by simp
  have t1: "shlex_split ''/slackbot update myTaskA:::40'' =
              Inr (''/slackbot'' # ''update'' # ''myTaskA:::40'' # [])"
    by (simp add: shlex_defs)
  have s1: "str_split CHR '':'' ''myTaskA:::40'' = [''myTaskA'', [], [], ''40'']"
    by simp
  have t2: "shlex_split ''/slackbot update myTaskA:\"new description\"::40'' =
              Inr (''/slackbot'' # ''update'' # ''myTaskA:new description::40'' # [])"
    by (simp add: shlex_defs)
  have s2: "str_split CHR '':'' ''myTaskA:new description::40'' =
              [''myTaskA'', ''new description'', [], ''40'']"
    by simp
  have t3: "shlex_split ''/slackbot update myTaskA::0:40'' =
              Inr (''/slackbot'' # ''update'' # ''myTaskA::0:40'' # [])"
    by (simp add: shlex_defs)
  have s3: "str_split CHR '':'' ''myTaskA::0:40'' = [''myTaskA'', [], ''0'', ''40'']"
    by simp
  have p3: "py_int ''0'' = Inr 0"
    by (simp add: py_int_defs)
  have t4: "shlex_split ''/slackbot update myTaskA::4:40'' =
              Inr (''/slackbot'' # ''update'' # ''myTaskA::4:40'' # [])"
    by (simp add: shlex_defs)
  have s4: "str_split CHR '':'' ''myTaskA::4:40'' = [''myTaskA'', [], ''4'', ''40'']"
    by simp
  have p4: "\<not> is_priority ''4''"
    by (simp add: is_priority_def py_int_defs)
  have t5: "shlex_split (''/slackbot update a:b:'' @ replicate 4301 CHR ''0'' @ '':40'') =
              Inr (''/slackbot'' # ''update'' # (''a:b:'' @ replicate 4301 CHR ''0'' @ '':40'') # [])"
    by (simp add: shlex_defs read_loop_zeros)
  have s5: "str_split CHR '':'' (''a:b:'' @ replicate 4301 CHR ''0'' @ '':40'') =
              [''a'', ''b'', replicate 4301 CHR ''0'', ''40'']"
    by (simp add: str_split_first_field)
  have i5: "py_int (replicate 4301 CHR ''0'') = Inl ValueError"
    by (simp add: py_int_zeros max_str_digits_def)
  then have p5: "replicate 4301 CHR ''0'' \<noteq> [] \<and> \<not> is_priority (replicate 4301 CHR ''0'')"
    by (simp add: is_priority_def)
  have ne5: "''a'' \<noteq> []" by simp
  from update_rule [OF t1 s1 ne pc]
  have r1: "slackbot_command_parse ''/slackbot update myTaskA:::40'' ''/slackbot'' =
     Inr [col_command \<mapsto> PyStr ''update'', col_taskname \<mapsto> PyStr ''myTaskA'',
          col_taskdesc \<mapsto> PyStr [], col_priolevel \<mapsto> PyStr [], col_percent \<mapsto> PyInt 40]"
    by simp
  from update_rule [OF t2 s2 ne pc]
  have r2: "slackbot_command_parse ''/slackbot update myTaskA:\"new description\"::40'' ''/slackbot'' =
     Inr [col_command \<mapsto> PyStr ''update'', col_taskname \<mapsto> PyStr ''myTaskA'',
          col_taskdesc \<mapsto> PyStr ''new description'', col_priolevel \<mapsto> PyStr [],
          col_percent \<mapsto> PyInt 40]"
    by simp
  from update_rule [OF t3 s3 ne pc, of 0] p3
  have r3: "slackbot_command_parse ''/slackbot update myTaskA::0:40'' ''/slackbot'' =
     Inr [col_command \<mapsto> PyStr ''update'', col_taskname \<mapsto> PyStr ''myTaskA'',
          col_taskdesc \<mapsto> PyStr [], col_priolevel \<mapsto> PyInt 0, col_percent \<mapsto> PyInt 40]"
    by simp
  from update_rule [OF t4 s4 ne pc] p4
  have r4: "slackbot_command_parse ''/slackbot update myTaskA::4:40'' ''/slackbot'' = Inr Map.empty"
    by simp
  from update_rule [OF t5 s5 ne5 pc] p5
  have r5: "slackbot_command_parse (''/slackbot update a:b:'' @ replicate 4301 CHR ''0'' @ '':40'')
     ''/slackbot'' = Inr Map.empty"
    by blast
  from r1 r2 r3 p4 r4 t5 s5 i5 r5 show ?thesis by (intro conjI)
qed

text \<open>
  C5. On a \<^verbatim>\<open>suspend\<close> or \<^verbatim>\<open>abandon\<close> line, the function returns a record exactly when
  the parameter token splits on \<^verbatim>\<open>:\<close> into exactly one field and that field is not
  empty: the record then has that field as task name and the three other fields
  absent. A token with a colon in it, so with more fields, and an empty task name give
  the empty dictionary.
\<close>

theorem suspend_abandon_rule:
  assumes "shlex_split l = Inr (p # c # param # rest)" "c = ''suspend'' \<or> c = ''abandon''"
  shows "(str_split CHR '':'' param = [f0] \<and> f0 \<noteq> [] \<longrightarrow>
          slackbot_command_parse l p =
            Inr [col_command \<mapsto> PyStr c, col_taskname \<mapsto> PyStr f0, col_taskdesc \<mapsto> PyStr [],
                 col_priolevel \<mapsto> PyStr [], col_percent \<mapsto> PyStr []] \<and>
          slackbot_command_parse l p \<noteq> Inr Map.empty) \<and>
         (length (str_split CHR '':'' param) \<noteq> 1 \<or> str_split CHR '':'' param ! 0 = [] \<longrightarrow>
          slackbot_command_parse l p = Inr Map.empty) \<and>
         (CHR '':'' \<in> set param \<longrightarrow> slackbot_command_parse l p = Inr Map.empty)"
proof (intro conjI impI)
  assume a: "str_split CHR '':'' param = [f0] \<and> f0 \<noteq> []"
  then have "str_split CHR '':'' param = [f0]" "f0 \<noteq> []" by simp_all
  then show r: "slackbot_command_parse l p =
            Inr [col_command \<mapsto> PyStr c, col_taskname \<mapsto> PyStr f0, col_taskdesc \<mapsto> PyStr [],
                 col_priolevel \<mapsto> PyStr [], col_percent \<mapsto> PyStr []]"
    by (rule parse_name_accept [OF assms])
  have "[col_command \<mapsto> PyStr c, col_taskname \<mapsto> PyStr f0, col_taskdesc \<mapsto> PyStr [],
                 col_priolevel \<mapsto> PyStr [], col_percent \<mapsto> PyStr []] \<noteq> Map.empty"
    by simp
  with r show "slackbot_command_parse l p \<noteq> Inr Map.empty" by simp
next
  assume "length (str_split CHR '':'' param) \<noteq> 1 \<or> str_split CHR '':'' param ! 0 = []"
  then have "\<not> name_fields_valid (str_split CHR '':'' param)"
    by (auto simp: name_fields_valid_def)
  with assms show "slackbot_command_parse l p = Inr Map.empty"
    by (rule parse_name_reject)
next
  assume "CHR '':'' \<in> set param"
  then have "2 \<le> length (str_split CHR '':'' param)" by (rule str_split_sep_length)
  then have "\<not> name_fields_valid (str_split CHR '':'' param)"
    by (simp add: name_fields_valid_def)
  with assms show "slackbot_command_parse l p = Inr Map.empty"
    by (rule parse_name_reject)
qed

theorem suspend_abandon_rule_witness:
  "slackbot_command_parse ''/slackbot suspend myTaskB'' ''/slackbot'' =
     Inr [col_command \<mapsto> PyStr ''suspend'', col_taskname \<mapsto> PyStr ''myTaskB'',
          col_taskdesc \<mapsto> PyStr [], col_priolevel \<mapsto> PyStr [], col_percent \<mapsto> PyStr []] \<and>
   slackbot_command_parse ''/slackbot suspend myTaskB:::'' ''/slackbot'' = Inr Map.empty \<and>
   shlex_split ''/slackbot abandon \"\"'' = Inr [''/slackbot'', ''abandon'', []] \<and>
   slackbot_command_parse ''/slackbot abandon \"\"'' ''/slackbot'' = Inr Map.empty"
proof -
  have t1: "shlex_split ''/slackbot suspend myTaskB'' =
              Inr (''/slackbot'' # ''suspend'' # ''myTaskB'' # [])"
    by (simp add: shlex_defs)
  have s1: "str_split CHR '':'' ''myTaskB'' = [''myTaskB''] \<and> ''myTaskB'' \<noteq> []"
    by simp
  have t2: "shlex_split ''/slackbot suspend myTaskB:::'' =
              Inr (''/slackbot'' # ''suspend'' # ''myTaskB:::'' # [])"
    by (simp add: shlex_defs)
  have s2: "CHR '':'' \<in> set ''myTaskB:::''"
    by simp
  have t3: "shlex_split ''/slackbot abandon \"\"'' = Inr (''/slackbot'' # ''abandon'' # [] # [])"
    by (simp add: shlex_defs)
  have s3: "length (str_split CHR '':'' []) \<noteq> 1 \<or> str_split CHR '':'' [] ! 0 = []"
    by simp
  from suspend_abandon_rule [OF t1, of "''myTaskB''"] s1
  have r1: "slackbot_command_parse ''/slackbot suspend myTaskB'' ''/slackbot'' =
     Inr [col_command \<mapsto> PyStr ''suspend'', col_taskname \<mapsto> PyStr ''myTaskB'',
          col_taskdesc \<mapsto> PyStr [], col_priolevel \<mapsto> PyStr [], col_percent \<mapsto> PyStr []]"
    by blast
  from suspend_abandon_rule [OF t2] s2
  have r2: "slackbot_command_parse ''/slackbot suspend myTaskB:::'' ''/slackbot'' = Inr Map.empty"
    by blast
  from suspend_abandon_rule [OF t3] s3
  have r3: "slackbot_command_parse ''/slackbot abandon \"\"'' ''/slackbot'' = Inr Map.empty"
    by blast
  from r1 r2 t3 r3 show ?thesis by simp
qed

text \<open>
  C7. When the shell-style tokenization of the line fails (a quotation that is not
  closed, or closed by the other quote character), and when it yields fewer than three
  tokens, the function returns the empty dictionary.
\<close>

theorem tokenization_rule:
  "(shlex_split l = Inl e \<longrightarrow> slackbot_command_parse l p = Inr Map.empty) \<and>
   (shlex_split l = Inr toks \<and> length toks < 3 \<longrightarrow> slackbot_command_parse l p = Inr Map.empty)"
  by (auto intro: parse_tokenize_error parse_few_tokens)

theorem tokenization_rule_witness:
  "shlex_split ''/slackbot create myTaskA:'plain vanilla task\":1:10'' = Inl ValueError \<and>
   slackbot_command_parse ''/slackbot create myTaskA:'plain vanilla task\":1:10'' ''/slackbot'' =
     Inr Map.empty \<and>
   shlex_split ''/slackbot create myTaskA:\"plain vanilla task':1:10'' = Inl ValueError \<and>
   slackbot_command_parse ''/slackbot create myTaskA:\"plain vanilla task':1:10'' ''/slackbot'' =
     Inr Map.empty \<and>
   shlex_split ''/slackbot create'' = Inr [''/slackbot'', ''create''] \<and>
   slackbot_command_parse ''/slackbot create'' ''/slackbot'' = Inr Map.empty \<and>
   shlex_split [] = Inr [] \<and>
   slackbot_command_parse [] ''/slackbot'' = Inr Map.empty"
proof -
  have t1: "shlex_split ''/slackbot create myTaskA:'plain vanilla task\":1:10'' = Inl ValueError"
    by (simp add: shlex_defs)
  have t2: "shlex_split ''/slackbot create myTaskA:\"plain vanilla task':1:10'' = Inl ValueError"
    by (simp add: shlex_defs)
  have t3: "shlex_split ''/slackbot create'' = Inr [''/slackbot'', ''create'']"
    by (simp add: shlex_defs)
  have t4: "shlex_split [] = Inr []"
    by (simp add: shlex_defs)
  from tokenization_rule [of "''/slackbot create myTaskA:'plain vanilla task\":1:10''" ValueError
      "''/slackbot''"] t1
  have r1: "slackbot_command_parse ''/slackbot create myTaskA:'plain vanilla task\":1:10'' ''/slackbot'' =
     Inr Map.empty"
    by blast
  from tokenization_rule [of "''/slackbot create myTaskA:\"plain vanilla task':1:10''" ValueError
      "''/slackbot''"] t2
  have r2: "slackbot_command_parse ''/slackbot create myTaskA:\"plain vanilla task':1:10'' ''/slackbot'' =
     Inr Map.empty"
    by blast
  have "length [''/slackbot'', ''create''] < 3" by simp
  with tokenization_rule [of "''/slackbot create''" _ "''/slackbot''" "[''/slackbot'', ''create'']"] t3
  have r3: "slackbot_command_parse ''/slackbot create'' ''/slackbot'' = Inr Map.empty"
    by blast
  have "length ([] :: string list) < 3" by simp
  with tokenization_rule [of "[]" _ "''/slackbot''" "[]"] t4
  have r4: "slackbot_command_parse [] ''/slackbot'' = Inr Map.empty"
    by blast
  from t1 r1 t2 r2 t3 r3 t4 r4 show ?thesis by (intro conjI)
qed

text \<open>
  C8. When the first token of the line is not exactly the prefix (the comparison is
  that of strings: a longer word, the prefix glued to the next word or another case do
  not match), and when the second token is not exactly one of \<^verbatim>\<open>create\<close>, \<^verbatim>\<open>update\<close>,
  \<^verbatim>\<open>suspend\<close>, \<^verbatim>\<open>abandon\<close>, the function returns the empty dictionary.
\<close>

theorem prefix_and_command_rule:
  assumes "shlex_split l = Inr toks"
  shows "(0 < length toks \<and> toks ! 0 \<noteq> p \<longrightarrow> slackbot_command_parse l p = Inr Map.empty) \<and>
         (1 < length toks \<and> toks ! 1 \<notin> {''create'', ''update'', ''suspend'', ''abandon''} \<longrightarrow>
          slackbot_command_parse l p = Inr Map.empty)"
proof (intro conjI impI)
  assume "0 < length toks \<and> toks ! 0 \<noteq> p"
  then obtain t0 ts where "toks = t0 # ts" "t0 \<noteq> p"
    by (cases toks) auto
  with assms show "slackbot_command_parse l p = Inr Map.empty"
    by (intro parse_prefix_mismatch [of l t0 ts]) simp_all
next
  assume a: "1 < length toks \<and> toks ! 1 \<notin> {''create'', ''update'', ''suspend'', ''abandon''}"
  then obtain t0 c ts where toks: "toks = t0 # c # ts"
    by (cases toks; simp; rename_tac x xs; case_tac xs; simp)
  with a have "c \<notin> {''create'', ''update'', ''suspend'', ''abandon''}" by simp
  with assms toks show "slackbot_command_parse l p = Inr Map.empty"
    by (intro parse_unknown_command [of l t0 c ts]) simp_all
qed

theorem prefix_and_command_rule_witness:
  "slackbot_command_parse ''/slackbott create myTaskA:'plain vanilla task':1:10'' ''/slackbot'' =
     Inr Map.empty \<and>
   slackbot_command_parse ''/slackbotcreate myTaskA:'plain vanilla task':1:10'' ''/slackbot'' =
     Inr Map.empty \<and>
   slackbot_command_parse ''/Slackbot create myTaskA:'plain vanilla task':1:10'' ''/slackbot'' =
     Inr Map.empty \<and>
   slackbot_command_parse ''/slackbot createmyTaskA:'plain vanilla task':1:10'' ''/slackbot'' =
     Inr Map.empty \<and>
   slackbot_command_parse ''/slackbot Create myTaskA:'plain vanilla task':1:10'' ''/slackbot'' =
     Inr Map.empty"
proof -
  have t1: "shlex_split ''/slackbott create myTaskA:'plain vanilla task':1:10'' =
              Inr [''/slackbott'', ''create'', ''myTaskA:plain vanilla task:1:10'']"
    by (simp add: shlex_defs)
  have t2: "shlex_split ''/slackbotcreate myTaskA:'plain vanilla task':1:10'' =
              Inr [''/slackbotcreate'', ''myTaskA:plain vanilla task:1:10'']"
    by (simp add: shlex_defs)
  have t3: "shlex_split ''/Slackbot create myTaskA:'plain vanilla task':1:10'' =
              Inr [''/Slackbot'', ''create'', ''myTaskA:plain vanilla task:1:10'']"
    by (simp add: shlex_defs)
  have t4: "shlex_split ''/slackbot createmyTaskA:'plain vanilla task':1:10'' =
              Inr [''/slackbot'', ''createmyTaskA:plain vanilla task:1:10'']"
    by (simp add: shlex_defs)
  have t5: "shlex_split ''/slackbot Create myTaskA:'plain vanilla task':1:10'' =
              Inr [''/slackbot'', ''Create'', ''myTaskA:plain vanilla task:1:10'']"
    by (simp add: shlex_defs)
  from prefix_and_command_rule [OF t1, of "''/slackbot''"]
  have r1: "slackbot_command_parse ''/slackbott create myTaskA:'plain vanilla task':1:10'' ''/slackbot'' =
     Inr Map.empty"
    by simp
  from prefix_and_command_rule [OF t2, of "''/slackbot''"]
  have r2: "slackbot_command_parse ''/slackbotcreate myTaskA:'plain vanilla task':1:10'' ''/slackbot'' =
     Inr Map.empty"
    by simp
  from prefix_and_command_rule [OF t3, of "''/slackbot''"]
  have r3: "slackbot_command_parse ''/Slackbot create myTaskA:'plain vanilla task':1:10'' ''/slackbot'' =
     Inr Map.empty"
    by simp
  from prefix_and_command_rule [OF t4, of "''/slackbot''"]
  have r4: "slackbot_command_parse ''/slackbot createmyTaskA:'plain vanilla task':1:10'' ''/slackbot'' =
     Inr Map.empty"
    by simp
  from prefix_and_command_rule [OF t5, of "''/slackbot''"]
  have r5: "slackbot_command_parse ''/slackbot Create myTaskA:'plain vanilla task':1:10'' ''/slackbot'' =
     Inr Map.empty"
    by simp
  from r1 r2 r3 r4 r5 show ?thesis by (intro conjI)
qed

text \<open>
  C9. The result depends only on the first three tokens of the line: two lines whose
  tokenizations succeed and agree on the tokens 0, 1 and 2 (on all their tokens, when
  there are fewer than three) have the same result. A fourth token is dropped and
  never causes a rejection by itself.
\<close>

theorem first_three_tokens:
  assumes "shlex_split l1 = Inr toks1" "shlex_split l2 = Inr toks2"
    and "take 3 toks1 = take 3 toks2"
  shows "slackbot_command_parse l1 p = slackbot_command_parse l2 p"
proof -
  have "index toks1 i = index toks2 i" if "i < 3" for i
    using index_take [OF that, of toks1] index_take [OF that, of toks2] assms(3) by simp
  then have i: "index toks1 0 = index toks2 0" "index toks1 1 = index toks2 1"
    "index toks1 2 = index toks2 2"
    by simp_all
  have blocks: "create_block toks1 = create_block toks2" "update_block toks1 = update_block toks2"
    "suspend_block toks1 = suspend_block toks2" "abandon_block toks1 = abandon_block toks2"
    unfolding create_block_def update_block_def suspend_block_def abandon_block_def i
    by (rule refl)+
  have "try_body l1 p d = try_body l2 p d" for d
    unfolding try_body_def assms(1,2) sum.case blocks i(1)
    by (rule refl)
  then show ?thesis
    unfolding slackbot_command_parse_def by simp
qed

theorem first_three_tokens_witness:
  "shlex_split ''/slackbot suspend myTaskB'' = Inr [''/slackbot'', ''suspend'', ''myTaskB''] \<and>
   shlex_split ''/slackbot suspend myTaskB now please'' =
     Inr [''/slackbot'', ''suspend'', ''myTaskB'', ''now'', ''please''] \<and>
   slackbot_command_parse ''/slackbot suspend myTaskB now please'' ''/slackbot'' =
     slackbot_command_parse ''/slackbot suspend myTaskB'' ''/slackbot'' \<and>
   slackbot_command_parse ''/slackbot suspend myTaskB now please'' ''/slackbot'' =
     Inr [col_command \<mapsto> PyStr ''suspend'', col_taskname \<mapsto> PyStr ''myTaskB'',
          col_taskdesc \<mapsto> PyStr [], col_priolevel \<mapsto> PyStr [], col_percent \<mapsto> PyStr []]"
proof -
  have t1: "shlex_split ''/slackbot suspend myTaskB'' = Inr [''/slackbot'', ''suspend'', ''myTaskB'']"
    by (simp add: shlex_defs)
  have t2: "shlex_split ''/slackbot suspend myTaskB now please'' =
     Inr [''/slackbot'', ''suspend'', ''myTaskB'', ''now'', ''please'']"
    by (simp add: shlex_defs)
  have tk: "take 3 [''/slackbot'', ''suspend'', ''myTaskB'', ''now'', ''please''] =
            take 3 [''/slackbot'', ''suspend'', ''myTaskB'']"
    by simp
  note eq = first_three_tokens [OF t2 t1 tk, of "''/slackbot''"]
  have r: "slackbot_command_parse ''/slackbot suspend myTaskB'' ''/slackbot'' =
     Inr [col_command \<mapsto> PyStr ''suspend'', col_taskname \<mapsto> PyStr ''myTaskB'',
          col_taskdesc \<mapsto> PyStr [], col_priolevel \<mapsto> PyStr [], col_percent \<mapsto> PyStr []]"
    by (simp add: eval_defs)
  from t1 t2 eq r show ?thesis by simp
qed

text \<open>
  C10, as the specification states it: no task name and no task description of a
  returned record contains a \<^verbatim>\<open>:\<close>, and so a quoted description with a colon in it is
  never accepted, the split on \<^verbatim>\<open>:\<close> raising the number of fields and the result being
  the empty dictionary. The first part holds. The second fails where the extra field
  makes up the number that the command asks for: with the description \<^verbatim>\<open>"done:"\<close> and no
  field for the priority, the parameter token has four fields, and the line is accepted
  as an update with the description \<^verbatim>\<open>done\<close>.
\<close>

theorem quoted_colon_counterexample:
  "shlex_split ''/slackbot update myTaskA:\"done:\":100'' =
     Inr [''/slackbot'', ''update'', ''myTaskA:done::100''] \<and>
   str_split CHR '':'' ''myTaskA:done::100'' = [''myTaskA'', ''done'', [], ''100''] \<and>
   slackbot_command_parse ''/slackbot update myTaskA:\"done:\":100'' ''/slackbot'' =
     Inr [col_command \<mapsto> PyStr ''update'', col_taskname \<mapsto> PyStr ''myTaskA'',
          col_taskdesc \<mapsto> PyStr ''done'', col_priolevel \<mapsto> PyStr [], col_percent \<mapsto> PyInt 100] \<and>
   slackbot_command_parse ''/slackbot update myTaskA:\"done:\":100'' ''/slackbot'' \<noteq> Inr Map.empty"
proof -
  have t: "shlex_split ''/slackbot update myTaskA:\"done:\":100'' =
     Inr [''/slackbot'', ''update'', ''myTaskA:done::100'']"
    by (simp add: shlex_defs)
  have s: "str_split CHR '':'' ''myTaskA:done::100'' = [''myTaskA'', ''done'', [], ''100'']"
    by simp
  have r: "slackbot_command_parse ''/slackbot update myTaskA:\"done:\":100'' ''/slackbot'' =
     Inr [col_command \<mapsto> PyStr ''update'', col_taskname \<mapsto> PyStr ''myTaskA'',
          col_taskdesc \<mapsto> PyStr ''done'', col_priolevel \<mapsto> PyStr [], col_percent \<mapsto> PyInt 100]"
    by (simp add: eval_defs)
  have "[col_command \<mapsto> PyStr ''update'', col_taskname \<mapsto> PyStr ''myTaskA'',
         col_taskdesc \<mapsto> PyStr ''done'', col_priolevel \<mapsto> PyStr [], col_percent \<mapsto> PyInt 100]
        \<noteq> Map.empty"
    by simp
  with r have "slackbot_command_parse ''/slackbot update myTaskA:\"done:\":100'' ''/slackbot''
                 \<noteq> Inr Map.empty"
    by simp
  with t s r show ?thesis by (intro conjI)
qed

text \<open>
  C10, amended: in every record that the function returns, the task name and the task
  description contain no \<^verbatim>\<open>:\<close>. Quoting keeps a colon inside the parameter token, but the
  split on \<^verbatim>\<open>:\<close> comes after the tokenization: a parameter token made of a name, a
  description with a colon in it, a priority and a percentage has at least five fields,
  and the result is then the empty dictionary.
\<close>

theorem no_colon_in_fields:
  "(slackbot_command_parse l p = Inr d \<and> d col_taskname = Some (PyStr tn) \<and>
    d col_taskdesc = Some (PyStr td) \<longrightarrow> CHR '':'' \<notin> set tn \<and> CHR '':'' \<notin> set td) \<and>
   (shlex_split l = Inr (t0 # c # (name @ '':'' @ desc @ '':'' @ prio @ '':'' @ perc) # rest) \<and>
    CHR '':'' \<in> set desc \<longrightarrow>
    5 \<le> length (str_split CHR '':'' (name @ '':'' @ desc @ '':'' @ prio @ '':'' @ perc)) \<and>
    slackbot_command_parse l p = Inr Map.empty)"
proof (intro conjI impI)
  assume a: "slackbot_command_parse l p = Inr d \<and> d col_taskname = Some (PyStr tn) \<and>
    d col_taskdesc = Some (PyStr td)"
  then have d: "slackbot_command_parse l p = Inr d" and tn: "d col_taskname = Some (PyStr tn)"
    and td: "d col_taskdesc = Some (PyStr td)"
    by simp_all
  have "CHR '':'' \<notin> set tn \<and> CHR '':'' \<notin> set td"
  proof (cases l p rule: parse_result_cases)
    case Empty
    with d have "d = Map.empty" by simp
    with tn show ?thesis by simp
  next
    case (Create param f0 f1 pl pc)
    from Create(8) d tn td have "tn = f0" "td = f1" by auto
    with Create(1,2) show ?thesis by (auto dest: str_split_no_sep)
  next
    case (Update_absent param f0 f1 pc)
    from Update_absent(6) d tn td have "tn = f0" "td = f1" by auto
    with Update_absent(1,2) show ?thesis by (auto dest: str_split_no_sep)
  next
    case (Update_priority param f0 f1 pl pc)
    from Update_priority(7) d tn td have "tn = f0" "td = f1" by auto
    with Update_priority(1,2) show ?thesis by (auto dest: str_split_no_sep)
  next
    case (Suspend param f0)
    from Suspend(3) d tn td have "tn = f0" "td = []" by auto
    with Suspend(1) show ?thesis by (auto dest: str_split_no_sep)
  next
    case (Abandon param f0)
    from Abandon(3) d tn td have "tn = f0" "td = []" by auto
    with Abandon(1) show ?thesis by (auto dest: str_split_no_sep)
  qed
  then show "CHR '':'' \<notin> set tn" "CHR '':'' \<notin> set td" by simp_all
next
  let ?param = "name @ '':'' @ desc @ '':'' @ prio @ '':'' @ perc"
  assume a: "shlex_split l = Inr (t0 # c # ?param # rest) \<and> CHR '':'' \<in> set desc"
  then have tk: "shlex_split l = Inr (t0 # c # ?param # rest)" and "CHR '':'' \<in> set desc"
    by simp_all
  then have "2 \<le> length (str_split CHR '':'' desc)" by (intro str_split_sep_length)
  moreover have "1 \<le> length (str_split CHR '':'' name)" "1 \<le> length (str_split CHR '':'' prio)"
    "1 \<le> length (str_split CHR '':'' perc)"
    using str_split_not_Nil [of "CHR '':''" name] str_split_not_Nil [of "CHR '':''" prio]
      str_split_not_Nil [of "CHR '':''" perc]
    by (simp_all add: Suc_le_eq)
  ultimately show len: "5 \<le> length (str_split CHR '':'' ?param)"
    using length_str_split_append [of "CHR '':''" name "desc @ '':'' @ prio @ '':'' @ perc"]
      length_str_split_append [of "CHR '':''" desc "prio @ '':'' @ perc"]
      length_str_split_append [of "CHR '':''" prio perc]
    by simp
  then have nv: "\<not> create_fields_valid (str_split CHR '':'' ?param)"
    "\<not> update_fields_valid (str_split CHR '':'' ?param)"
    "\<not> name_fields_valid (str_split CHR '':'' ?param)"
    by (simp_all add: create_fields_valid_def update_fields_valid_def name_fields_valid_def)
  show "slackbot_command_parse l p = Inr Map.empty"
  proof (cases "t0 = p")
    case False
    with tk show ?thesis by (intro parse_prefix_mismatch)
  next
    case True
    with tk have tk': "shlex_split l = Inr (p # c # ?param # rest)" by simp
    consider "c = ''create''" | "c = ''update''" | "c = ''suspend'' \<or> c = ''abandon''"
      | "c \<noteq> ''create''" "c \<noteq> ''update''" "c \<noteq> ''suspend''" "c \<noteq> ''abandon''"
      by fast
    then show ?thesis
    proof cases
      case 1
      with tk' have "shlex_split l = Inr (p # ''create'' # ?param # rest)" by simp
      from parse_create_reject [OF this nv(1)] show ?thesis .
    next
      case 2
      with tk' have "shlex_split l = Inr (p # ''update'' # ?param # rest)" by simp
      from parse_update_reject [OF this nv(2)] show ?thesis .
    next
      case 3
      from parse_name_reject [OF tk' 3 nv(3)] show ?thesis .
    next
      case 4
      then have "c \<notin> {''create'', ''update'', ''suspend'', ''abandon''}" by simp
      with tk' show ?thesis by (intro parse_unknown_command)
    qed
  qed
qed

theorem no_colon_in_fields_witness:
  "shlex_split ''/slackbot create myTaskA:\"plain:vanilla\":1:10'' =
     Inr [''/slackbot'', ''create'', ''myTaskA:plain:vanilla:1:10''] \<and>
   CHR '':'' \<in> set ''plain:vanilla'' \<and>
   5 \<le> length (str_split CHR '':'' ''myTaskA:plain:vanilla:1:10'') \<and>
   slackbot_command_parse ''/slackbot create myTaskA:\"plain:vanilla\":1:10'' ''/slackbot'' =
     Inr Map.empty \<and>
   slackbot_command_parse ''/slackbot create myTaskA:'plain vanilla task':1:10'' ''/slackbot'' =
     Inr [col_command \<mapsto> PyStr ''create'', col_taskname \<mapsto> PyStr ''myTaskA'',
          col_taskdesc \<mapsto> PyStr ''plain vanilla task'', col_priolevel \<mapsto> PyInt 1,
          col_percent \<mapsto> PyInt 10] \<and>
   CHR '':'' \<notin> set ''myTaskA'' \<and> CHR '':'' \<notin> set ''plain vanilla task''"
proof -
  let ?r = "[col_command \<mapsto> PyStr ''create'', col_taskname \<mapsto> PyStr ''myTaskA'',
          col_taskdesc \<mapsto> PyStr ''plain vanilla task'', col_priolevel \<mapsto> PyInt 1,
          col_percent \<mapsto> PyInt 10]"
  have t1: "shlex_split ''/slackbot create myTaskA:\"plain:vanilla\":1:10'' =
     Inr (''/slackbot'' # ''create'' #
          (''myTaskA'' @ '':'' @ ''plain:vanilla'' @ '':'' @ ''1'' @ '':'' @ ''10'') # [])"
    by (simp add: shlex_defs)
  have c1: "CHR '':'' \<in> set ''plain:vanilla''"
    by simp
  from no_colon_in_fields [where l = "''/slackbot create myTaskA:\"plain:vanilla\":1:10''"
      and p = "''/slackbot''" and ?t0.0 = "''/slackbot''" and c = "''create''"
      and name = "''myTaskA''" and desc = "''plain:vanilla''" and prio = "''1''"
      and perc = "''10''" and rest = "[]"] t1 c1
  have r1: "5 \<le> length (str_split CHR '':'' ''myTaskA:plain:vanilla:1:10'')"
    "slackbot_command_parse ''/slackbot create myTaskA:\"plain:vanilla\":1:10'' ''/slackbot'' =
     Inr Map.empty"
    by simp_all
  have r2: "slackbot_command_parse ''/slackbot create myTaskA:'plain vanilla task':1:10'' ''/slackbot''
              = Inr ?r"
    by (simp add: eval_defs)
  have f: "?r col_taskname = Some (PyStr ''myTaskA'')"
    "?r col_taskdesc = Some (PyStr ''plain vanilla task'')"
    by simp_all
  from no_colon_in_fields [where l = "''/slackbot create myTaskA:'plain vanilla task':1:10''"
      and p = "''/slackbot''" and d = ?r and tn = "''myTaskA''" and td = "''plain vanilla task''"]
    r2 f
  have r3: "CHR '':'' \<notin> set ''myTaskA''" "CHR '':'' \<notin> set ''plain vanilla task''"
    by blast+
  from t1 c1 r1 r2 r3 show ?thesis by simp
qed

text \<open>
  C6, as the specification states it: in a returned record an omitted priority level
  or percentage is a marker of its own, neither zero nor the empty string, and the
  description of a suspend or abandon record (not applicable) differs from the empty
  string that an explicitly empty description is. The function writes the empty string
  in all these places: the description of a suspended task is the very value of the
  explicitly empty description of an update, and the absent priority level is that
  value too.
\<close>

theorem absent_marker_counterexample:
  "slackbot_command_parse ''/slackbot update myTaskA:::40'' ''/slackbot'' =
     Inr [col_command \<mapsto> PyStr ''update'', col_taskname \<mapsto> PyStr ''myTaskA'',
          col_taskdesc \<mapsto> PyStr [], col_priolevel \<mapsto> PyStr [], col_percent \<mapsto> PyInt 40] \<and>
   slackbot_command_parse ''/slackbot suspend myTaskB'' ''/slackbot'' =
     Inr [col_command \<mapsto> PyStr ''suspend'', col_taskname \<mapsto> PyStr ''myTaskB'',
          col_taskdesc \<mapsto> PyStr [], col_priolevel \<mapsto> PyStr [], col_percent \<mapsto> PyStr []] \<and>
   projr (slackbot_command_parse ''/slackbot suspend myTaskB'' ''/slackbot'') col_taskdesc =
     projr (slackbot_command_parse ''/slackbot update myTaskA:::40'' ''/slackbot'') col_taskdesc \<and>
   projr (slackbot_command_parse ''/slackbot update myTaskA:::40'' ''/slackbot'') col_priolevel =
     Some (PyStr [])"
proof -
  have u: "slackbot_command_parse ''/slackbot update myTaskA:::40'' ''/slackbot'' =
     Inr [col_command \<mapsto> PyStr ''update'', col_taskname \<mapsto> PyStr ''myTaskA'',
          col_taskdesc \<mapsto> PyStr [], col_priolevel \<mapsto> PyStr [], col_percent \<mapsto> PyInt 40]"
    by (simp add: eval_defs)
  have s: "slackbot_command_parse ''/slackbot suspend myTaskB'' ''/slackbot'' =
     Inr [col_command \<mapsto> PyStr ''suspend'', col_taskname \<mapsto> PyStr ''myTaskB'',
          col_taskdesc \<mapsto> PyStr [], col_priolevel \<mapsto> PyStr [], col_percent \<mapsto> PyStr []]"
    by (simp add: eval_defs)
  show ?thesis
    unfolding u s by simp
qed

text \<open>
  C6, amended: every record that the function returns comes from a line whose first
  three tokens are the prefix, a command and a parameter token, and holds the command.
  For create, the priority level and the percentage are the integers read from the third
  and fourth fields. For update, the percentage is the integer read from the fourth
  field, the description is the second field as written, and the priority level is the
  empty string exactly when the third field is empty, and otherwise the integer read
  from it. For suspend and abandon, the description, the priority level and the
  percentage are all the empty string. The marker of an omitted field is thus the empty
  string, a string and so not the integer zero; it is also the value of an explicitly
  empty description of an update.
\<close>

theorem absent_marker_is_empty_string:
  assumes "slackbot_command_parse l p = Inr d" "d \<noteq> Map.empty"
  shows "PyStr [] \<noteq> PyInt 0 \<and>
    (\<exists>c param rest. shlex_split l = Inr (p # c # param # rest) \<and> d col_command = Some (PyStr c) \<and>
      (c = ''create'' \<and>
         (\<exists>f0 f1 f2 f3 pl pc. str_split CHR '':'' param = [f0, f1, f2, f3] \<and>
            py_int f2 = Inr pl \<and> py_int f3 = Inr pc \<and>
            d col_taskname = Some (PyStr f0) \<and> d col_taskdesc = Some (PyStr f1) \<and>
            d col_priolevel = Some (PyInt pl) \<and> d col_percent = Some (PyInt pc)) \<or>
       c = ''update'' \<and>
         (\<exists>f0 f1 f2 f3 pc. str_split CHR '':'' param = [f0, f1, f2, f3] \<and> py_int f3 = Inr pc \<and>
            d col_taskname = Some (PyStr f0) \<and> d col_taskdesc = Some (PyStr f1) \<and>
            d col_percent = Some (PyInt pc) \<and>
            (if f2 = [] then d col_priolevel = Some (PyStr [])
             else \<exists>pl. py_int f2 = Inr pl \<and> d col_priolevel = Some (PyInt pl))) \<or>
       (c = ''suspend'' \<or> c = ''abandon'') \<and>
         (\<exists>f0. str_split CHR '':'' param = [f0] \<and> d col_taskname = Some (PyStr f0) \<and>
            d col_taskdesc = Some (PyStr []) \<and> d col_priolevel = Some (PyStr []) \<and>
            d col_percent = Some (PyStr []))))"
proof -
  from assms have ne: "slackbot_command_parse l p \<noteq> Inr Map.empty" by auto
  from ne obtain toks where toks: "shlex_split l = Inr toks"
    using parse_tokenize_error [of l _ p] by (cases "shlex_split l") auto
  from ne have "\<not> length toks < 3"
    using parse_few_tokens [OF toks, of p] by blast
  then obtain t0 c param rest where shape: "toks = t0 # c # param # rest"
    by (cases toks; simp; rename_tac x xs; case_tac xs; simp; rename_tac y ys; case_tac ys; simp)
  from ne have "t0 = p"
    using parse_prefix_mismatch [of l t0 "c # param # rest" p] toks shape by auto
  with toks shape have tk: "shlex_split l = Inr (p # c # param # rest)" by simp
  let ?fs = "str_split CHR '':'' param"
  let ?create = "\<exists>f0 f1 f2 f3 pl pc. ?fs = [f0, f1, f2, f3] \<and>
            py_int f2 = Inr pl \<and> py_int f3 = Inr pc \<and>
            d col_taskname = Some (PyStr f0) \<and> d col_taskdesc = Some (PyStr f1) \<and>
            d col_priolevel = Some (PyInt pl) \<and> d col_percent = Some (PyInt pc)"
  let ?update = "\<exists>f0 f1 f2 f3 pc. ?fs = [f0, f1, f2, f3] \<and> py_int f3 = Inr pc \<and>
            d col_taskname = Some (PyStr f0) \<and> d col_taskdesc = Some (PyStr f1) \<and>
            d col_percent = Some (PyInt pc) \<and>
            (if f2 = [] then d col_priolevel = Some (PyStr [])
             else \<exists>pl. py_int f2 = Inr pl \<and> d col_priolevel = Some (PyInt pl))"
  let ?name = "\<exists>f0. ?fs = [f0] \<and> d col_taskname = Some (PyStr f0) \<and>
            d col_taskdesc = Some (PyStr []) \<and> d col_priolevel = Some (PyStr []) \<and>
            d col_percent = Some (PyStr [])"
  have body: "d col_command = Some (PyStr c) \<and>
      (c = ''create'' \<and> ?create \<or> c = ''update'' \<and> ?update \<or>
       (c = ''suspend'' \<or> c = ''abandon'') \<and> ?name)"
  proof (cases "c = ''create''")
    case True
    with tk have tk': "shlex_split l = Inr (p # ''create'' # param # rest)" by simp
    from ne parse_create_reject [OF tk'] have "create_fields_valid ?fs" by blast
    then obtain f0 f1 f2 f3 pl pc where f: "?fs = [f0, f1, f2, f3]" "f0 \<noteq> []" "f1 \<noteq> []"
      "py_int f2 = Inr pl" "pl \<in> {0, 1, 2}" "py_int f3 = Inr pc" "0 \<le> pc" "pc \<le> 100"
      by (rule create_fields_validD)
    from parse_create_accept [OF tk' f] assms(1) have
      d: "d = [col_command \<mapsto> PyStr ''create'', col_taskname \<mapsto> PyStr f0,
               col_taskdesc \<mapsto> PyStr f1, col_priolevel \<mapsto> PyInt pl, col_percent \<mapsto> PyInt pc]"
      by simp
    from d have cmd: "d col_command = Some (PyStr c)" using True by simp
    from d f(1,4,6) have ?create by simp
    with True cmd show ?thesis by blast
  next
    case not_create: False
    show ?thesis
    proof (cases "c = ''update''")
      case True
      with tk have tk': "shlex_split l = Inr (p # ''update'' # param # rest)" by simp
      from ne parse_update_reject [OF tk'] have "update_fields_valid ?fs" by blast
      then obtain f0 f1 f2 f3 pc where f: "?fs = [f0, f1, f2, f3]" "f0 \<noteq> []"
        and f2: "f2 = [] \<or> (\<exists>pl. py_int f2 = Inr pl \<and> pl \<in> {0, 1, 2})"
        and f3: "py_int f3 = Inr pc" "0 \<le> pc" "pc \<le> 100"
        by (rule update_fields_validD)
      have "?update \<and> d col_command = Some (PyStr c)"
      proof (cases "f2 = []")
        case empty: True
        with f have "?fs = [f0, f1, [], f3]" by simp
        from parse_update_accept_absent [OF tk' this f(2) f3] assms(1) have
          d: "d = [col_command \<mapsto> PyStr ''update'', col_taskname \<mapsto> PyStr f0,
                col_taskdesc \<mapsto> PyStr f1, col_priolevel \<mapsto> PyStr [], col_percent \<mapsto> PyInt pc]"
          by simp
        from d f(1) f3(1) empty have ?update by simp
        moreover from d True have "d col_command = Some (PyStr c)" by simp
        ultimately show ?thesis by simp
      next
        case False
        with f2 obtain pl where pl: "py_int f2 = Inr pl" "pl \<in> {0, 1, 2}" by blast
        from parse_update_accept_priority [OF tk' f False pl f3] assms(1) have
          d: "d = [col_command \<mapsto> PyStr ''update'', col_taskname \<mapsto> PyStr f0,
                col_taskdesc \<mapsto> PyStr f1, col_priolevel \<mapsto> PyInt pl, col_percent \<mapsto> PyInt pc]"
          by simp
        from d f(1) f3(1) False pl(1) have ?update by simp
        moreover from d True have "d col_command = Some (PyStr c)" by simp
        ultimately show ?thesis by simp
      qed
      then show ?thesis using True by blast
    next
      case not_update: False
      show ?thesis
      proof (cases "c = ''suspend'' \<or> c = ''abandon''")
        case False
        with not_create not_update
        have "c \<notin> {''create'', ''update'', ''suspend'', ''abandon''}" by simp
        from parse_unknown_command [OF tk this] ne show ?thesis by blast
      next
        case True
        from ne parse_name_reject [OF tk True] have "name_fields_valid ?fs" by blast
        then obtain f0 where f: "?fs = [f0]" "f0 \<noteq> []"
          by (auto simp: name_fields_valid_def length_Suc_conv)
        from parse_name_accept [OF tk True f] assms(1) have
          d: "d = [col_command \<mapsto> PyStr c, col_taskname \<mapsto> PyStr f0,
                col_taskdesc \<mapsto> PyStr [], col_priolevel \<mapsto> PyStr [], col_percent \<mapsto> PyStr []]"
          by simp
        from d f(1) have ?name by simp
        moreover from d have "d col_command = Some (PyStr c)" by simp
        ultimately show ?thesis using True by blast
      qed
    qed
  qed
  have "\<exists>c param rest. shlex_split l = Inr (p # c # param # rest) \<and>
      d col_command = Some (PyStr c) \<and>
      (c = ''create'' \<and>
         (\<exists>f0 f1 f2 f3 pl pc. str_split CHR '':'' param = [f0, f1, f2, f3] \<and>
            py_int f2 = Inr pl \<and> py_int f3 = Inr pc \<and>
            d col_taskname = Some (PyStr f0) \<and> d col_taskdesc = Some (PyStr f1) \<and>
            d col_priolevel = Some (PyInt pl) \<and> d col_percent = Some (PyInt pc)) \<or>
       c = ''update'' \<and>
         (\<exists>f0 f1 f2 f3 pc. str_split CHR '':'' param = [f0, f1, f2, f3] \<and> py_int f3 = Inr pc \<and>
            d col_taskname = Some (PyStr f0) \<and> d col_taskdesc = Some (PyStr f1) \<and>
            d col_percent = Some (PyInt pc) \<and>
            (if f2 = [] then d col_priolevel = Some (PyStr [])
             else \<exists>pl. py_int f2 = Inr pl \<and> d col_priolevel = Some (PyInt pl))) \<or>
       (c = ''suspend'' \<or> c = ''abandon'') \<and>
         (\<exists>f0. str_split CHR '':'' param = [f0] \<and> d col_taskname = Some (PyStr f0) \<and>
            d col_taskdesc = Some (PyStr []) \<and> d col_priolevel = Some (PyStr []) \<and>
            d col_percent = Some (PyStr [])))"
    by (rule exI [where x = c], rule exI [where x = param], rule exI [where x = rest],
        rule conjI [OF tk body])
  then show ?thesis by simp
qed

theorem absent_marker_is_empty_string_witness:
  "slackbot_command_parse ''/slackbot update myTaskA:::40'' ''/slackbot'' =
     Inr [col_command \<mapsto> PyStr ''update'', col_taskname \<mapsto> PyStr ''myTaskA'',
          col_taskdesc \<mapsto> PyStr [], col_priolevel \<mapsto> PyStr [], col_percent \<mapsto> PyInt 40] \<and>
   [col_command \<mapsto> PyStr ''update'', col_taskname \<mapsto> PyStr ''myTaskA'',
    col_taskdesc \<mapsto> PyStr [], col_priolevel \<mapsto> PyStr [], col_percent \<mapsto> PyInt 40] \<noteq> Map.empty \<and>
   (\<exists>c param rest.
      shlex_split ''/slackbot update myTaskA:::40'' = Inr (''/slackbot'' # c # param # rest) \<and>
      c = ''update'' \<and>
      (\<exists>f0 f1 f2 f3 pc. str_split CHR '':'' param = [f0, f1, f2, f3] \<and> py_int f3 = Inr pc \<and>
         f1 = [] \<and> f2 = [] \<and> pc = 40))"
proof -
  let ?r = "[col_command \<mapsto> PyStr ''update'', col_taskname \<mapsto> PyStr ''myTaskA'',
    col_taskdesc \<mapsto> PyStr [], col_priolevel \<mapsto> PyStr [], col_percent \<mapsto> PyInt 40]"
  have r: "slackbot_command_parse ''/slackbot update myTaskA:::40'' ''/slackbot'' = Inr ?r"
    by (simp add: eval_defs)
  have ne: "?r \<noteq> Map.empty" by simp
  from absent_marker_is_empty_string [OF r ne]
  obtain c param rest where
    tk: "shlex_split ''/slackbot update myTaskA:::40'' = Inr (''/slackbot'' # c # param # rest)"
    and c: "?r col_command = Some (PyStr c)"
    and body: "c = ''create'' \<and>
         (\<exists>f0 f1 f2 f3 pl pc. str_split CHR '':'' param = [f0, f1, f2, f3] \<and>
            py_int f2 = Inr pl \<and> py_int f3 = Inr pc \<and>
            ?r col_taskname = Some (PyStr f0) \<and> ?r col_taskdesc = Some (PyStr f1) \<and>
            ?r col_priolevel = Some (PyInt pl) \<and> ?r col_percent = Some (PyInt pc)) \<or>
       c = ''update'' \<and>
         (\<exists>f0 f1 f2 f3 pc. str_split CHR '':'' param = [f0, f1, f2, f3] \<and> py_int f3 = Inr pc \<and>
            ?r col_taskname = Some (PyStr f0) \<and> ?r col_taskdesc = Some (PyStr f1) \<and>
            ?r col_percent = Some (PyInt pc) \<and>
            (if f2 = [] then ?r col_priolevel = Some (PyStr [])
             else \<exists>pl. py_int f2 = Inr pl \<and> ?r col_priolevel = Some (PyInt pl))) \<or>
       (c = ''suspend'' \<or> c = ''abandon'') \<and>
         (\<exists>f0. str_split CHR '':'' param = [f0] \<and> ?r col_taskname = Some (PyStr f0) \<and>
            ?r col_taskdesc = Some (PyStr []) \<and> ?r col_priolevel = Some (PyStr []) \<and>
            ?r col_percent = Some (PyStr []))"
    by (elim conjE exE)
  from c have c': "c = ''update''" by simp
  with body obtain f0 f1 f2 f3 pc where
    f: "str_split CHR '':'' param = [f0, f1, f2, f3]" "py_int f3 = Inr pc"
    and v: "?r col_taskdesc = Some (PyStr f1)" "?r col_percent = Some (PyInt pc)"
    and pl: "if f2 = [] then ?r col_priolevel = Some (PyStr [])
             else \<exists>pl. py_int f2 = Inr pl \<and> ?r col_priolevel = Some (PyInt pl)"
    by (elim disjE conjE exE) simp_all
  from v have "f1 = []" "pc = 40" by simp_all
  moreover from pl have "f2 = []" by (cases "f2 = []") simp_all
  ultimately have inner: "\<exists>f0 f1 f2 f3 pc. str_split CHR '':'' param = [f0, f1, f2, f3] \<and>
      py_int f3 = Inr pc \<and> f1 = [] \<and> f2 = [] \<and> pc = 40"
    using f by blast
  have "\<exists>c param rest.
      shlex_split ''/slackbot update myTaskA:::40'' = Inr (''/slackbot'' # c # param # rest) \<and>
      c = ''update'' \<and>
      (\<exists>f0 f1 f2 f3 pc. str_split CHR '':'' param = [f0, f1, f2, f3] \<and> py_int f3 = Inr pc \<and>
         f1 = [] \<and> f2 = [] \<and> pc = 40)"
    by (rule exI [where x = c], rule exI [where x = param], rule exI [where x = rest])
       (intro conjI tk c' inner)
  with r ne show ?thesis by (intro conjI)
qed

end
